theory Spec2Isabelle
  imports Main "HOL-Library.Word" "HOL-Library.Monad_Syntax" "HOL-Library.Product_Lexorder"
begin

unbundle bit_operations_syntax

section \<open>Addresses, hashing and the collaborators of the address manager\<close>

text \<open>
  The development follows \<^verbatim>\<open>src/addrman_multi.cpp\<close> (class \<^verbatim>\<open>AddrManMultiImpl\<close>): the
  multi-index address manager whose entries (\<^verbatim>\<open>AddrInfo\<close>) carry their own statistics and
  whose random-sample vector \<^verbatim>\<open>vRandom\<close> holds iterators into the index.

  Network addresses, the hash writer and the clock are collaborators that live outside the
  modelled files. A \<^verbatim>\<open>CNetAddr\<close> is an opaque value with equality and an order (here a
  natural number), a \<^verbatim>\<open>CService\<close> adds a port. The functions of the collaborators that the
  manager calls are the fields of the record \<open>netenv\<close>, a parameter of every definition:
  nothing is assumed about them.
\<close>

type_synonym CNetAddr = nat
type_synonym CService = "CNetAddr \<times> nat"
type_synonym uint256 = "256 word"
type_synonym bytes = "8 word list"

text \<open>What is fed to a \<^verbatim>\<open>CHashWriter\<close> with \<^verbatim>\<open><<\<close>, one constructor per C++ type.\<close>

datatype hash_item =
    HKey uint256
  | HBytes bytes
  | HU64 "64 word"
  | HU8 "8 word"
  | HInt int

record netenv =
  GetCheapHash :: "hash_item list \<Rightarrow> 64 word"
  GetKey :: "CService \<Rightarrow> bytes"
  GetGroup :: "bool list \<Rightarrow> CNetAddr \<Rightarrow> bytes"
  IsRoutable :: "CNetAddr \<Rightarrow> bool"
  GetNetClass :: "CNetAddr \<Rightarrow> nat"

text \<open>The constants of \<^verbatim>\<open>addrman_multi.cpp\<close> and of its header.\<close>

definition ADDRMAN_TRIED_BUCKETS_PER_GROUP :: "64 word" where
  "ADDRMAN_TRIED_BUCKETS_PER_GROUP = 8"

definition ADDRMAN_NEW_BUCKETS_PER_SOURCE_GROUP :: "64 word" where
  "ADDRMAN_NEW_BUCKETS_PER_SOURCE_GROUP = 64"

definition ADDRMAN_NEW_BUCKETS_PER_ADDRESS :: nat where
  "ADDRMAN_NEW_BUCKETS_PER_ADDRESS = 8"

definition ADDRMAN_HORIZON_DAYS :: int where
  "ADDRMAN_HORIZON_DAYS = 30"

definition ADDRMAN_RETRIES :: int where
  "ADDRMAN_RETRIES = 3"

definition ADDRMAN_MAX_FAILURES :: int where
  "ADDRMAN_MAX_FAILURES = 10"

definition ADDRMAN_MIN_FAIL_DAYS :: int where
  "ADDRMAN_MIN_FAIL_DAYS = 7"

definition ADDRMAN_REPLACEMENT_HOURS :: int where
  "ADDRMAN_REPLACEMENT_HOURS = 4"

definition ADDRMAN_SET_TRIED_COLLISION_SIZE :: nat where
  "ADDRMAN_SET_TRIED_COLLISION_SIZE = 10"

definition ADDRMAN_TEST_WINDOW :: int where
  "ADDRMAN_TEST_WINDOW = 40 * 60"

definition ADDRMAN_TRIED_BUCKET_COUNT :: "64 word" where
  "ADDRMAN_TRIED_BUCKET_COUNT = push_bit 8 1"

definition ADDRMAN_NEW_BUCKET_COUNT :: "64 word" where
  "ADDRMAN_NEW_BUCKET_COUNT = push_bit 10 1"

definition ADDRMAN_BUCKET_SIZE :: "64 word" where
  "ADDRMAN_BUCKET_SIZE = push_bit 6 1"

section \<open>Entries\<close>

text \<open>
  \<^verbatim>\<open>AddrInfo\<close> extends \<^verbatim>\<open>CAddress\<close> (a \<^verbatim>\<open>CService\<close> with the 32-bit \<^verbatim>\<open>nTime\<close> and the 64-bit
  service flags). The 64-bit signed time stamps and the \<^verbatim>\<open>int\<close> counters are mathematical
  integers: signed overflow is undefined in C++, so the model describes the runs without it.
  \<^verbatim>\<open>nRandomPos = -1\<close> marks an alias.
\<close>

record CAddress =
  addr_service :: CService
  addr_nTime :: "32 word"
  addr_nServices :: "64 word"

record AddrInfo =
  service :: CService
  nTime :: "32 word"
  nServices :: "64 word"
  source :: CNetAddr
  nLastTry :: int
  nLastCountAttempt :: int
  nLastSuccess :: int
  nAttempts :: int
  fInTried :: bool
  nRandomPos :: int
  m_bucket :: int
  m_bucketpos :: int

definition GetTriedBucket :: "netenv \<Rightarrow> uint256 \<Rightarrow> bool list \<Rightarrow> AddrInfo \<Rightarrow> int" where
  "GetTriedBucket env key asmap info =
     (let hash1 = GetCheapHash env [HKey key, HBytes (GetKey env (service info))];
          hash2 = GetCheapHash env [HKey key, HBytes (GetGroup env asmap (fst (service info))),
                                    HU64 (hash1 mod ADDRMAN_TRIED_BUCKETS_PER_GROUP)]
      in uint (hash2 mod ADDRMAN_TRIED_BUCKET_COUNT))"

definition GetNewBucket :: "netenv \<Rightarrow> uint256 \<Rightarrow> CNetAddr \<Rightarrow> bool list \<Rightarrow> AddrInfo \<Rightarrow> int" where
  "GetNewBucket env key src asmap info =
     (let vchSourceGroupKey = GetGroup env asmap src;
          hash1 = GetCheapHash env [HKey key, HBytes (GetGroup env asmap (fst (service info))),
                                    HBytes vchSourceGroupKey];
          hash2 = GetCheapHash env [HKey key, HBytes vchSourceGroupKey,
                                    HU64 (hash1 mod ADDRMAN_NEW_BUCKETS_PER_SOURCE_GROUP)]
      in uint (hash2 mod ADDRMAN_NEW_BUCKET_COUNT))"

definition GetBucketPosition :: "netenv \<Rightarrow> uint256 \<Rightarrow> bool \<Rightarrow> int \<Rightarrow> AddrInfo \<Rightarrow> int" where
  "GetBucketPosition env key fNew nBucket info =
     (let hash1 = GetCheapHash env [HKey key, HU8 (if fNew then 78 else 75), HInt nBucket,
                                    HBytes (GetKey env (service info))]
      in uint (hash1 mod ADDRMAN_BUCKET_SIZE))"

definition Rebucket :: "netenv \<Rightarrow> uint256 \<Rightarrow> bool list \<Rightarrow> AddrInfo \<Rightarrow> AddrInfo" where
  "Rebucket env key asmap info =
     (let b = (if fInTried info then GetTriedBucket env key asmap info
               else GetNewBucket env key (source info) asmap info)
      in info\<lparr>m_bucket := b, m_bucketpos := GetBucketPosition env key (\<not> fInTried info) b info\<rparr>)"

definition IsTerrible :: "AddrInfo \<Rightarrow> int \<Rightarrow> bool" where
  "IsTerrible info nNow =
     (if nLastTry info \<noteq> 0 \<and> nLastTry info \<ge> nNow - 60 then False
      else if uint (nTime info) > nNow + 10 * 60 then True
      else if nTime info = 0 \<or> nNow - uint (nTime info) > ADDRMAN_HORIZON_DAYS * 24 * 60 * 60 then True
      else if nLastSuccess info = 0 \<and> nAttempts info \<ge> ADDRMAN_RETRIES then True
      else if nNow - nLastSuccess info > ADDRMAN_MIN_FAIL_DAYS * 24 * 60 * 60
              \<and> nAttempts info \<ge> ADDRMAN_MAX_FAILURES then True
      else False)"

section \<open>The address manager\<close>

text \<open>
  The multi-index container \<^verbatim>\<open>m_index\<close> is a list of nodes in insertion order, each node an
  entry with the identity of its node (what an iterator or an \<^verbatim>\<open>AddrInfo*\<close> denotes), which stays
  the same when the entry is modified. The \<^verbatim>\<open>ByAddress\<close> index orders the nodes by
  \<open>(service, is alias)\<close> and keeps equal keys in insertion order; the \<^verbatim>\<open>ByBucket\<close> index orders
  them by \<open>(fInTried, m_bucket, m_bucketpos)\<close>.

  \<^verbatim>\<open>insecure_rand\<close> is the stream of the numbers the random context will return: a draw takes
  the head of the stream. The clock (\<^verbatim>\<open>GetAdjustedTime\<close>) is the argument \<open>now\<close> of the
  operations that read it.
\<close>

type_synonym node = "nat \<times> AddrInfo"

record AddrMan =
  nKey :: uint256
  m_asmap :: "bool list"
  m_consistency_check_ratio :: nat
  insecure_rand :: "nat \<Rightarrow> nat"
  m_index :: "node list"
  next_node :: nat
  vRandom :: "nat list"
  nNew :: int
  nTried :: int
  nLastGood :: int
  m_tried_collisions :: "nat set"

text \<open>\<^verbatim>\<open>insecure_rand.randrange(n)\<close>: the number returned, and the manager after the draw.\<close>

definition randrange :: "nat \<Rightarrow> AddrMan \<Rightarrow> nat" where
  "randrange n s = insecure_rand s 0 mod n"

definition rand_next :: "AddrMan \<Rightarrow> AddrMan" where
  "rand_next s = s\<lparr>insecure_rand := (\<lambda>i. insecure_rand s (Suc i))\<rparr>"

subsection \<open>Looking up nodes\<close>

definition is_alias :: "AddrInfo \<Rightarrow> bool" where
  "is_alias e = (nRandomPos e = -1)"

text \<open>\<^verbatim>\<open>ByAddress.find((addr, alias))\<close>: the first node with that key.\<close>

definition find_addr :: "node list \<Rightarrow> CService \<Rightarrow> bool \<Rightarrow> node option" where
  "find_addr idx a alias = List.find (\<lambda>(i, e). service e = a \<and> is_alias e = alias) idx"

text \<open>
  \<^verbatim>\<open>ByAddress.lower_bound((addr, false))\<close> followed by the test that the node found has the
  address \<open>addr\<close>: the main entry of the address if there is one, else its first alias.
\<close>

definition lower_bound_addr :: "node list \<Rightarrow> CService \<Rightarrow> node option" where
  "lower_bound_addr idx a =
     (case find_addr idx a False of Some x \<Rightarrow> Some x | None \<Rightarrow> find_addr idx a True)"

definition ByBucketExtractor :: "AddrInfo \<Rightarrow> bool \<times> int \<times> int" where
  "ByBucketExtractor info = (fInTried info, m_bucket info, m_bucketpos info)"

text \<open>
  \<^verbatim>\<open>ByBucket.find(slot)\<close>. The container allows several nodes in a slot; the model returns the
  first one inserted, which is the node of the code whenever the slot holds at most one.
\<close>

definition find_bucket :: "node list \<Rightarrow> bool \<times> int \<times> int \<Rightarrow> node option" where
  "find_bucket idx v = List.find (\<lambda>(i, e). ByBucketExtractor e = v) idx"

definition CountAddr :: "node list \<Rightarrow> CService \<Rightarrow> nat" where
  "CountAddr idx a = length (filter (\<lambda>(i, e). service e = a) idx)"

subsection \<open>Insert, Modify, Erase\<close>

definition UpdateStat :: "AddrInfo \<Rightarrow> int \<Rightarrow> AddrMan \<Rightarrow> AddrMan" where
  "UpdateStat info inc s =
     (if nRandomPos info \<noteq> -1 then
        (if fInTried info then s\<lparr>nTried := nTried s + inc\<rparr> else s\<lparr>nNew := nNew s + inc\<rparr>)
      else s)"

definition set_node :: "nat \<Rightarrow> AddrInfo \<Rightarrow> node list \<Rightarrow> node list" where
  "set_node it e idx = map (\<lambda>(i, x). if i = it then (i, e) else (i, x)) idx"

definition del_node :: "nat \<Rightarrow> node list \<Rightarrow> node list" where
  "del_node it idx = filter (\<lambda>(i, x). i \<noteq> it) idx"

text \<open>
  \<^verbatim>\<open>Modify(it, fun)\<close> of the header: the counters are taken down for the old entry, the entry is
  changed and put in its bucket again, the counters are put up for the new one.
\<close>

definition Modify :: "netenv \<Rightarrow> nat \<Rightarrow> (AddrInfo \<Rightarrow> AddrInfo) \<Rightarrow> AddrMan \<Rightarrow> AddrMan" where
  "Modify env it f s =
     (case map_of (m_index s) it of
        None \<Rightarrow> s
      | Some e \<Rightarrow>
          (let s1 = UpdateStat e (-1) s;
               e' = Rebucket env (nKey s) (m_asmap s) (f e);
               s2 = s1\<lparr>m_index := set_node it e' (m_index s1)\<rparr>
           in UpdateStat e' 1 s2))"

text \<open>
  \<^verbatim>\<open>Insert(info, alias)\<close>: the header of this variant is not among the sources; the definition
  follows the \<^verbatim>\<open>Insert\<close> of the sibling header, with the entry carrying its statistics and
  \<^verbatim>\<open>vRandom\<close> receiving the iterator of a main entry.
\<close>

definition Insert :: "netenv \<Rightarrow> AddrInfo \<Rightarrow> bool \<Rightarrow> AddrMan \<Rightarrow> AddrMan" where
  "Insert env info0 alias s =
     (let info1 = Rebucket env (nKey s) (m_asmap s) info0;
          info = info1\<lparr>nRandomPos := (if alias then -1 else int (length (vRandom s)))\<rparr>;
          s1 = UpdateStat info 1 s;
          it = next_node s1;
          s2 = s1\<lparr>m_index := m_index s1 @ [(it, info)], next_node := Suc it\<rparr>
      in if alias then s2 else s2\<lparr>vRandom := vRandom s2 @ [it]\<rparr>)"

definition set_random_pos :: "nat \<Rightarrow> nat \<Rightarrow> node list \<Rightarrow> node list" where
  "set_random_pos it p idx =
     map (\<lambda>(i, x). if i = it then (i, x\<lparr>nRandomPos := int p\<rparr>) else (i, x)) idx"

text \<open>\<^verbatim>\<open>SwapRandom\<close>; the failing assertion is the result \<open>None\<close>.\<close>

definition SwapRandom :: "nat \<Rightarrow> nat \<Rightarrow> AddrMan \<Rightarrow> AddrMan option" where
  "SwapRandom nRndPos1 nRndPos2 s =
     (if nRndPos1 = nRndPos2 then Some s
      else if \<not> (nRndPos1 < length (vRandom s) \<and> nRndPos2 < length (vRandom s)) then None
      else
        (let it1 = vRandom s ! nRndPos1;
             it2 = vRandom s ! nRndPos2
         in Some (s\<lparr>m_index := set_random_pos it2 nRndPos1 (set_random_pos it1 nRndPos2 (m_index s)),
                     vRandom := (vRandom s)[nRndPos1 := it2, nRndPos2 := it1]\<rparr>)))"

text \<open>The last three statements of \<^verbatim>\<open>EraseInner\<close>: the node \<open>it\<close> leaves the manager.\<close>

definition erase_node :: "nat \<Rightarrow> AddrMan \<Rightarrow> AddrMan" where
  "erase_node it s =
     (case map_of (m_index s) it of
        None \<Rightarrow> s
      | Some e \<Rightarrow>
          (let s1 = s\<lparr>m_tried_collisions := m_tried_collisions s - {it}\<rparr>;
               s2 = UpdateStat e (-1) s1
           in s2\<lparr>m_index := del_node it (m_index s2)\<rparr>))"

text \<open>
  \<^verbatim>\<open>EraseInner(it)\<close>. When \<open>it\<close> is a main entry and its address has an alias, the alias is
  erased in its place and the main entry takes the source of the alias. \<open>None\<close> is a failing
  assertion of \<^verbatim>\<open>SwapRandom\<close> (which includes \<^verbatim>\<open>vRandom.size() - 1\<close> on an empty vector).
\<close>

definition EraseInner :: "netenv \<Rightarrow> nat \<Rightarrow> AddrMan \<Rightarrow> AddrMan option" where
  "EraseInner env it s =
     (case map_of (m_index s) it of
        None \<Rightarrow> None
      | Some e \<Rightarrow>
          if nRandomPos e \<noteq> -1 then
            (case find_addr (m_index s) (service e) True of
               Some (it_alias, e_alias) \<Rightarrow>
                 (let s1 = (if it_alias \<in> m_tried_collisions s
                            then s\<lparr>m_tried_collisions := insert it (m_tried_collisions s)\<rparr> else s);
                      s2 = Modify env it (\<lambda>info. info\<lparr>source := source e_alias\<rparr>) s1
                  in Some (erase_node it_alias s2))
             | None \<Rightarrow>
                 (if vRandom s = [] \<or> nRandomPos e < 0 then None
                  else
                    (case SwapRandom (nat (nRandomPos e)) (length (vRandom s) - 1) s of
                       None \<Rightarrow> None
                     | Some s1 \<Rightarrow> Some (erase_node it (s1\<lparr>vRandom := butlast (vRandom s1)\<rparr>)))))
          else Some (erase_node it s))"

lemma map_fst_set_node [simp]: "map fst (set_node it e idx) = map fst idx"
  by (induction idx) (auto simp: set_node_def)

lemma map_fst_set_random_pos [simp]: "map fst (set_random_pos it p idx) = map fst idx"
  by (induction idx) (auto simp: set_random_pos_def)

lemma m_index_UpdateStat [simp]: "m_index (UpdateStat e inc s) = m_index s"
  by (simp add: UpdateStat_def)

lemma map_of_eq_None_fst: "(map_of idx it = None) = (it \<notin> set (map fst idx))"
  by (simp add: map_of_eq_None_iff)

lemma length_del_node: "it \<in> set (map fst idx) \<Longrightarrow> length (del_node it idx) < length idx"
proof -
  assume "it \<in> set (map fst idx)"
  then obtain b where "(it, b) \<in> set idx" by auto
  then show ?thesis
    unfolding del_node_def by (rule length_filter_less) simp
qed

lemma length_erase_node:
  "it \<in> set (map fst (m_index s)) \<Longrightarrow> length (m_index (erase_node it s)) < length (m_index s)"
  using length_del_node [of it "m_index s"]
  by (auto simp: erase_node_def Let_def map_of_eq_None_fst split: option.splits)

lemma map_fst_Modify [simp]: "map fst (m_index (Modify env it f s)) = map fst (m_index s)"
  by (simp add: Modify_def Let_def split: option.splits)

lemma map_fst_SwapRandom: "SwapRandom p q s = Some s' \<Longrightarrow> map fst (m_index s') = map fst (m_index s)"
  by (auto simp: SwapRandom_def Let_def split: if_splits)

lemma length_vRandom_SwapRandom: "SwapRandom p q s = Some s' \<Longrightarrow> length (vRandom s') = length (vRandom s)"
  by (auto simp: SwapRandom_def Let_def split: if_splits)

lemma find_SomeD: "List.find P xs = Some x \<Longrightarrow> x \<in> set xs \<and> P x"
  by (induction xs) (auto split: if_splits)

lemma find_addr_SomeD:
  "find_addr idx a b = Some (it, e) \<Longrightarrow> (it, e) \<in> set idx \<and> service e = a \<and> is_alias e = b"
  unfolding find_addr_def by (drule find_SomeD) simp

lemma find_bucket_SomeD:
  "find_bucket idx v = Some (it, e) \<Longrightarrow> (it, e) \<in> set idx \<and> ByBucketExtractor e = v"
  unfolding find_bucket_def by (drule find_SomeD) simp

lemma find_addr_fst: "find_addr idx a b = Some (it, e) \<Longrightarrow> it \<in> set (map fst idx)"
  by (drule find_addr_SomeD) force

lemma lower_bound_addr_fst: "lower_bound_addr idx a = Some (it, e) \<Longrightarrow> it \<in> set (map fst idx)"
  by (auto simp: lower_bound_addr_def split: option.splits dest: find_addr_fst)

lemma length_EraseInner:
  assumes "EraseInner env it s = Some s'"
  shows "length (m_index s') < length (m_index s)"
proof -
  from assms obtain e where e: "map_of (m_index s) it = Some e"
    by (auto simp: EraseInner_def split: option.splits)
  then have it: "it \<in> set (map fst (m_index s))"
    using map_of_eq_None_fst [of "m_index s" it] by auto
  show ?thesis
  proof (cases "nRandomPos e \<noteq> -1")
    case False
    with assms e have "s' = erase_node it s"
      by (simp add: EraseInner_def)
    with it show ?thesis
      by (simp add: length_erase_node)
  next
    case canon: True
    show ?thesis
    proof (cases "find_addr (m_index s) (service e) True")
      case None
      with assms e canon obtain s1 where
        s1: "SwapRandom (nat (nRandomPos e)) (length (vRandom s) - 1) s = Some s1"
        and s': "s' = erase_node it (s1\<lparr>vRandom := butlast (vRandom s1)\<rparr>)"
        by (auto simp: EraseInner_def split: option.splits if_splits)
      have "map fst (m_index (s1\<lparr>vRandom := butlast (vRandom s1)\<rparr>)) = map fst (m_index s)"
        using map_fst_SwapRandom [OF s1] by simp
      then have "length (m_index s') < length (m_index (s1\<lparr>vRandom := butlast (vRandom s1)\<rparr>))"
        unfolding s' using it by (intro length_erase_node) simp
      also have "length (m_index (s1\<lparr>vRandom := butlast (vRandom s1)\<rparr>)) = length (m_index s)"
        using map_fst_SwapRandom [OF s1, THEN arg_cong, of length] by simp
      finally show ?thesis .
    next
      case (Some p)
      obtain ia ea where p: "p = (ia, ea)" by (cases p)
      define s1 where "s1 = (if ia \<in> m_tried_collisions s
                            then s\<lparr>m_tried_collisions := insert it (m_tried_collisions s)\<rparr> else s)"
      define s2 where "s2 = Modify env it (\<lambda>info. info\<lparr>source := source ea\<rparr>) s1"
      have s': "s' = erase_node ia s2"
        using assms e canon Some p by (simp add: EraseInner_def s1_def s2_def Let_def)
      have idx: "map fst (m_index s2) = map fst (m_index s)"
        by (simp add: s2_def s1_def)
      have "ia \<in> set (map fst (m_index s))"
        using Some p by (auto dest: find_addr_fst)
      then have "length (m_index s') < length (m_index s2)"
        unfolding s' using idx by (intro length_erase_node) simp
      also have "length (m_index s2) = length (m_index s)"
        using idx [THEN arg_cong, of length] by simp
      finally show ?thesis .
    qed
  qed
qed

subsection \<open>MakeTried\<close>

text \<open>The loop of \<^verbatim>\<open>MakeTried\<close> that erases every node of an address.\<close>

function erase_all_addr :: "netenv \<Rightarrow> CService \<Rightarrow> AddrMan \<Rightarrow> AddrMan option" where
  "erase_all_addr env a s =
     (case lower_bound_addr (m_index s) a of
        None \<Rightarrow> Some s
      | Some (it_existing, e) \<Rightarrow>
          (case EraseInner env it_existing s of
             None \<Rightarrow> None
           | Some s' \<Rightarrow> erase_all_addr env a s'))"
  by pat_completeness auto
termination
  by (relation "measure (\<lambda>(env, a, s). length (m_index s))") (auto dest: length_EraseInner)

declare erase_all_addr.simps [simp del]

definition MakeTried :: "netenv \<Rightarrow> nat \<Rightarrow> AddrMan \<Rightarrow> AddrMan option" where
  "MakeTried env it s =
     (case map_of (m_index s) it of
        None \<Rightarrow> None
      | Some info0 \<Rightarrow>
          if fInTried info0 then None
          else do {
            s1 \<leftarrow> EraseInner env it s;
            s2 \<leftarrow> erase_all_addr env (service info0) s1;
            let info = Rebucket env (nKey s2) (m_asmap s2) (info0\<lparr>fInTried := True\<rparr>);
            s3 \<leftarrow> (case find_bucket (m_index s2) (ByBucketExtractor info) of
                     None \<Rightarrow> Some s2
                   | Some (it_existing, info_evict0) \<Rightarrow> do {
                       sa \<leftarrow> EraseInner env it_existing s2;
                       let info_evict = Rebucket env (nKey sa) (m_asmap sa) (info_evict0\<lparr>fInTried := False\<rparr>);
                       sb \<leftarrow> (case find_bucket (m_index sa) (ByBucketExtractor info_evict) of
                                None \<Rightarrow> Some sa
                              | Some (it_new_existing, x) \<Rightarrow> EraseInner env it_new_existing sa);
                       let alias = (find_addr (m_index sb) (service info_evict) False \<noteq> None);
                       Some (Insert env info_evict alias sb)
                     });
            Some (Insert env info False s3)
          })"

subsection \<open>Add\<close>

text \<open>
  The constructor \<^verbatim>\<open>AddrInfo(addr, source)\<close>: the address with its time and services, the
  source, and the defaults of the other members (the bucket members, which the constructor
  leaves unset, are written by \<^verbatim>\<open>Rebucket\<close> before they are read).
\<close>

definition AddrInfo_init :: "CAddress \<Rightarrow> CNetAddr \<Rightarrow> AddrInfo" where
  "AddrInfo_init addr src =
     \<lparr>service = addr_service addr, nTime = addr_nTime addr, nServices = addr_nServices addr,
      source = src, nLastTry = 0, nLastCountAttempt = 0, nLastSuccess = 0, nAttempts = 0,
      fInTried = False, nRandomPos = -1, m_bucket = 0, m_bucketpos = 0\<rparr>"

definition to_CAddress :: "AddrInfo \<Rightarrow> CAddress" where
  "to_CAddress info =
     \<lparr>addr_service = service info, addr_nTime = nTime info, addr_nServices = nServices info\<rparr>"

text \<open>
  The test of \<^verbatim>\<open>AddSingle\<close> that lets an announcement refresh the stored time:
  \<^verbatim>\<open>addr.nTime && (!it->nTime || it->nTime < addr.nTime - nUpdateInterval - nTimePenalty)\<close>.
\<close>

definition nUpdateInterval :: "int \<Rightarrow> CAddress \<Rightarrow> int" where
  "nUpdateInterval now addr =
     (let fCurrentlyOnline = (now - uint (addr_nTime addr) < 24 * 60 * 60)
      in if fCurrentlyOnline then 60 * 60 else 24 * 60 * 60)"

definition time_update_due :: "int \<Rightarrow> CAddress \<Rightarrow> int \<Rightarrow> AddrInfo \<Rightarrow> bool" where
  "time_update_due now addr nTimePenalty e =
     (addr_nTime addr \<noteq> 0 \<and>
      (nTime e = 0 \<or> uint (nTime e) < uint (addr_nTime addr) - nUpdateInterval now addr - nTimePenalty))"

text \<open>
  The second half of \<^verbatim>\<open>AddSingle\<close>: the entry goes to its slot of the new table if the slot is
  free, or if its occupant (of another address) is terrible or, for a main entry, has more
  than one reference.
\<close>

definition AddSingle_place ::
  "netenv \<Rightarrow> int \<Rightarrow> CAddress \<Rightarrow> AddrInfo \<Rightarrow> bool \<Rightarrow> AddrMan \<Rightarrow> (bool \<times> AddrMan) option" where
  "AddSingle_place env now addr info0 alias s =
     (let info = Rebucket env (nKey s) (m_asmap s) info0
      in case find_bucket (m_index s) (ByBucketExtractor info) of
           None \<Rightarrow> Some (True, Insert env info alias s)
         | Some (it_existing, infoExisting) \<Rightarrow>
             if service infoExisting \<noteq> addr_service addr then
               (if IsTerrible infoExisting now
                   \<or> (\<not> alias \<and> CountAddr (m_index s) (service infoExisting) > 1)
                then do { s1 \<leftarrow> EraseInner env it_existing s; Some (True, Insert env info alias s1) }
                else Some (False, s))
             else Some (False, s))"

text \<open>
  The first half of \<^verbatim>\<open>AddSingle\<close> for an address that has a main entry \<open>it\<close>: the stored
  time is refreshed if the test above allows it, and the services are merged.
\<close>

definition AddSingle_refresh ::
  "netenv \<Rightarrow> int \<Rightarrow> CAddress \<Rightarrow> int \<Rightarrow> nat \<Rightarrow> AddrInfo \<Rightarrow> AddrMan \<Rightarrow> AddrMan" where
  "AddSingle_refresh env now addr nTimePenalty it e0 s =
     (let s1 = (if time_update_due now addr nTimePenalty e0
                then Modify env it (\<lambda>info. info\<lparr>nTime :=
                       word_of_int (max 0 (uint (addr_nTime addr) - nTimePenalty))\<rparr>) s
                else s)
      in Modify env it (\<lambda>info. info\<lparr>nServices := nServices info OR addr_nServices addr\<rparr>) s1)"

text \<open>
  The tests of \<^verbatim>\<open>AddSingle\<close> that decide whether the announcement adds an alias to the
  refreshed main entry \<open>e\<close>.
\<close>

definition AddSingle_alias ::
  "netenv \<Rightarrow> int \<Rightarrow> CAddress \<Rightarrow> AddrInfo \<Rightarrow> AddrInfo \<Rightarrow> AddrMan \<Rightarrow> (bool \<times> AddrMan) option" where
  "AddSingle_alias env now addr info e s =
     (if addr_nTime addr = 0 \<or> (nTime e \<noteq> 0 \<and> addr_nTime addr \<le> nTime e) then Some (False, s)
      else if fInTried e then Some (False, s)
      else
        (let aliases = CountAddr (m_index s) (addr_service addr)
         in if aliases = ADDRMAN_NEW_BUCKETS_PER_ADDRESS then Some (False, s)
            else
              (let nFactor = (2::nat) ^ aliases
               in if nFactor > 1 then
                    (if randrange nFactor s \<noteq> 0 then Some (False, rand_next s)
                     else AddSingle_place env now addr info True (rand_next s))
                  else AddSingle_place env now addr info True s)))"

definition AddSingle ::
  "netenv \<Rightarrow> int \<Rightarrow> CAddress \<Rightarrow> CNetAddr \<Rightarrow> int \<Rightarrow> AddrMan \<Rightarrow> (bool \<times> AddrMan) option" where
  "AddSingle env now addr src nTimePenalty0 s =
     (if \<not> IsRoutable env (fst (addr_service addr)) then Some (False, s)
      else
        (let nTimePenalty = (if fst (addr_service addr) = src then 0 else nTimePenalty0);
             info = (AddrInfo_init addr src)\<lparr>fInTried := False\<rparr>
         in case find_addr (m_index s) (addr_service addr) False of
              Some (it, e0) \<Rightarrow>
                (let s2 = AddSingle_refresh env now addr nTimePenalty it e0 s
                 in case map_of (m_index s2) it of
                      None \<Rightarrow> None
                    | Some e \<Rightarrow> AddSingle_alias env now addr info e s2)
            | None \<Rightarrow>
                AddSingle_place env now addr
                  (info\<lparr>nTime := word_of_int (max 0 (uint (addr_nTime addr) - nTimePenalty))\<rparr>)
                  False s))"

fun Add_loop ::
  "netenv \<Rightarrow> int \<Rightarrow> CAddress list \<Rightarrow> CNetAddr \<Rightarrow> int \<Rightarrow> nat \<Rightarrow> AddrMan \<Rightarrow> (nat \<times> AddrMan) option" where
  "Add_loop env now [] src nTimePenalty added s = Some (added, s)"
| "Add_loop env now (addr # vAddr) src nTimePenalty added s =
     (case AddSingle env now addr src nTimePenalty s of
        None \<Rightarrow> None
      | Some (r, s') \<Rightarrow> Add_loop env now vAddr src nTimePenalty (added + (if r then 1 else 0)) s')"

definition Add_impl ::
  "netenv \<Rightarrow> int \<Rightarrow> CAddress list \<Rightarrow> CNetAddr \<Rightarrow> int \<Rightarrow> AddrMan \<Rightarrow> (bool \<times> AddrMan) option" where
  "Add_impl env now vAddr src nTimePenalty s =
     (case Add_loop env now vAddr src nTimePenalty 0 s of
        None \<Rightarrow> None
      | Some (added, s') \<Rightarrow> Some (added > 0, s'))"

subsection \<open>Good, Attempt, Connected, SetServices\<close>

definition Good_impl :: "netenv \<Rightarrow> CService \<Rightarrow> bool \<Rightarrow> int \<Rightarrow> AddrMan \<Rightarrow> (bool \<times> AddrMan) option" where
  "Good_impl env addr test_before_evict t s0 =
     (let s = s0\<lparr>nLastGood := t\<rparr>
      in case find_addr (m_index s) addr False of
           None \<Rightarrow> Some (False, s)
         | Some (it, e0) \<Rightarrow>
             (let s1 = Modify env it (\<lambda>info. info\<lparr>nLastSuccess := t, nLastTry := t, nAttempts := 0\<rparr>) s
              in case map_of (m_index s1) it of
                   None \<Rightarrow> None
                 | Some info \<Rightarrow>
                     if fInTried info then Some (False, s1)
                     else
                       (let tried_bucket = GetTriedBucket env (nKey s1) (m_asmap s1) info;
                            tried_bucket_pos = GetBucketPosition env (nKey s1) False tried_bucket info;
                            it_collision = find_bucket (m_index s1) (True, tried_bucket, tried_bucket_pos)
                        in if test_before_evict \<and> it_collision \<noteq> None then
                             Some (False,
                                   if card (m_tried_collisions s1) < ADDRMAN_SET_TRIED_COLLISION_SIZE
                                   then s1\<lparr>m_tried_collisions := insert it (m_tried_collisions s1)\<rparr>
                                   else s1)
                           else do { s2 \<leftarrow> MakeTried env it s1; Some (True, s2) })))"

definition Attempt_impl :: "netenv \<Rightarrow> CService \<Rightarrow> bool \<Rightarrow> int \<Rightarrow> AddrMan \<Rightarrow> AddrMan" where
  "Attempt_impl env addr fCountFailure t s =
     (case find_addr (m_index s) addr False of
        None \<Rightarrow> s
      | Some (it, e0) \<Rightarrow>
          (let last_good = nLastGood s
           in Modify env it
                (\<lambda>info. let info1 = info\<lparr>nLastTry := t\<rparr>
                        in if fCountFailure \<and> nLastCountAttempt info1 < last_good
                           then info1\<lparr>nLastCountAttempt := t, nAttempts := nAttempts info1 + 1\<rparr>
                           else info1) s))"

definition Connected_impl :: "netenv \<Rightarrow> CService \<Rightarrow> int \<Rightarrow> AddrMan \<Rightarrow> AddrMan" where
  "Connected_impl env addr t s =
     (case find_addr (m_index s) addr False of
        None \<Rightarrow> s
      | Some (it, info) \<Rightarrow>
          (let nUpdateInterval = 20 * 60
           in if t - uint (nTime info) > nUpdateInterval
              then Modify env it (\<lambda>info. info\<lparr>nTime := word_of_int t\<rparr>) s
              else s))"

definition SetServices_impl :: "netenv \<Rightarrow> CService \<Rightarrow> 64 word \<Rightarrow> AddrMan \<Rightarrow> AddrMan" where
  "SetServices_impl env addr nServices' s =
     (case find_addr (m_index s) addr False of
        None \<Rightarrow> s
      | Some (it, e0) \<Rightarrow> Modify env it (\<lambda>info. info\<lparr>nServices := nServices'\<rparr>) s)"

subsection \<open>GetAddr, FindAddressEntry and the collision set\<close>

text \<open>
  The loop of \<^verbatim>\<open>GetAddr_\<close>: position \<open>n\<close> of \<^verbatim>\<open>vRandom\<close> is swapped with a random later
  position and its entry is returned unless the network filter or \<^verbatim>\<open>IsTerrible\<close> rejects it.
  \<open>None\<close> is a failing assertion of \<^verbatim>\<open>SwapRandom\<close> or a dangling iterator.
\<close>

function GetAddr_loop ::
  "netenv \<Rightarrow> int \<Rightarrow> nat \<Rightarrow> nat option \<Rightarrow> nat \<Rightarrow> CAddress list \<Rightarrow> AddrMan
   \<Rightarrow> (CAddress list \<times> AddrMan) option" where
  "GetAddr_loop env now nNodes network n addresses s =
     (if n < length (vRandom s) then
        (if length addresses \<ge> nNodes then Some (addresses, s)
         else
           (let nRndPos = randrange (length (vRandom s) - n) s + n
            in case SwapRandom n nRndPos (rand_next s) of
                 None \<Rightarrow> None
               | Some s1 \<Rightarrow>
                   (case map_of (m_index s1) (vRandom s1 ! n) of
                      None \<Rightarrow> None
                    | Some ai \<Rightarrow>
                        if network \<noteq> None \<and> Some (GetNetClass env (fst (service ai))) \<noteq> network
                        then GetAddr_loop env now nNodes network (Suc n) addresses s1
                        else if IsTerrible ai now
                        then GetAddr_loop env now nNodes network (Suc n) addresses s1
                        else GetAddr_loop env now nNodes network (Suc n) (addresses @ [to_CAddress ai]) s1)))
      else Some (addresses, s))"
  by pat_completeness auto
termination
  apply (relation "measure (\<lambda>(env, now, nNodes, network, n, addresses, s). length (vRandom s) - n)")
     apply (auto dest!: length_vRandom_SwapRandom simp: rand_next_def)
  done

declare GetAddr_loop.simps [simp del]

text \<open>\<^verbatim>\<open>GetAddr_\<close>; \<^verbatim>\<open>size_t\<close> is taken as 64 bits wide.\<close>

definition GetAddr_impl ::
  "netenv \<Rightarrow> int \<Rightarrow> nat \<Rightarrow> nat \<Rightarrow> nat option \<Rightarrow> AddrMan \<Rightarrow> (CAddress list \<times> AddrMan) option" where
  "GetAddr_impl env now max_addresses max_pct network s =
     (let nNodes0 = length (vRandom s);
          nNodes1 = (if max_pct \<noteq> 0 then (max_pct * nNodes0) mod 2 ^ 64 div 100 else nNodes0);
          nNodes = (if max_addresses \<noteq> 0 then min nNodes1 max_addresses else nNodes1)
      in GetAddr_loop env now nNodes network 0 [] s)"

record AddressPosition =
  tried :: bool
  multiplicity :: nat
  bucket :: int
  position :: int

definition FindAddressEntry_impl :: "netenv \<Rightarrow> CService \<Rightarrow> AddrMan \<Rightarrow> AddressPosition option" where
  "FindAddressEntry_impl env addr s =
     (case find_addr (m_index s) addr False of
        None \<Rightarrow> None
      | Some (it, addr_info) \<Rightarrow>
          if fInTried addr_info then
            (let b = GetTriedBucket env (nKey s) (m_asmap s) addr_info
             in Some \<lparr>tried = True, multiplicity = 1, bucket = b,
                      position = GetBucketPosition env (nKey s) False b addr_info\<rparr>)
          else
            (let b = GetNewBucket env (nKey s) (source addr_info) (m_asmap s) addr_info
             in Some \<lparr>tried = False, multiplicity = CountAddr (m_index s) (service addr_info), bucket = b,
                      position = GetBucketPosition env (nKey s) True b addr_info\<rparr>))"

text \<open>
  \<^verbatim>\<open>m_tried_collisions\<close> is a \<^verbatim>\<open>std::set\<close> of node addresses, visited in the order of the
  addresses. The order is the argument \<open>order\<close> of the two operations that walk the set; an
  element that a call of \<^verbatim>\<open>Good_\<close> has erased from the set is skipped.
\<close>

definition SelectTriedCollision_impl ::
  "netenv \<Rightarrow> nat list \<Rightarrow> AddrMan \<Rightarrow> ((CAddress \<times> int) option \<times> AddrMan) option" where
  "SelectTriedCollision_impl env order s =
     (if card (m_tried_collisions s) = 0 then Some (None, s)
      else
        (let k = randrange (card (m_tried_collisions s)) s;
             s1 = rand_next s
         in if k \<ge> length order then None
            else
              (case map_of (m_index s1) (order ! k) of
                 None \<Rightarrow> None
               | Some newInfo \<Rightarrow>
                   (let tried_bucket = GetTriedBucket env (nKey s1) (m_asmap s1) newInfo;
                        tried_bucket_pos = GetBucketPosition env (nKey s1) False tried_bucket newInfo
                    in case find_bucket (m_index s1) (True, tried_bucket, tried_bucket_pos) of
                         Some (it_old, e_old) \<Rightarrow> Some (Some (to_CAddress e_old, nLastTry e_old), s1)
                       | None \<Rightarrow> Some (None, s1)))))"

text \<open>One round of the loop of \<^verbatim>\<open>ResolveCollisions_\<close> for the element \<open>it\<close> of the set.\<close>

definition ResolveCollisions_step :: "netenv \<Rightarrow> int \<Rightarrow> nat \<Rightarrow> AddrInfo \<Rightarrow> AddrMan \<Rightarrow> AddrMan option" where
  "ResolveCollisions_step env now it info_new s =
     (let tried_bucket = GetTriedBucket env (nKey s) (m_asmap s) info_new;
          tried_bucket_pos = GetBucketPosition env (nKey s) False tried_bucket info_new;
          promote = (case Good_impl env (service info_new) False now s of
                       None \<Rightarrow> None
                     | Some (r, s') \<Rightarrow> Some (s'\<lparr>m_tried_collisions := m_tried_collisions s' - {it}\<rparr>))
      in case find_bucket (m_index s) (True, tried_bucket, tried_bucket_pos) of
           Some (it_old, info_old) \<Rightarrow>
             if now - nLastSuccess info_old < ADDRMAN_REPLACEMENT_HOURS * (60 * 60)
             then Some (s\<lparr>m_tried_collisions := m_tried_collisions s - {it}\<rparr>)
             else if now - nLastTry info_old < ADDRMAN_REPLACEMENT_HOURS * (60 * 60)
             then (if now - nLastTry info_old > 60 then promote else Some s)
             else if now - nLastSuccess info_new > ADDRMAN_TEST_WINDOW then promote
             else Some s
         | None \<Rightarrow> promote)"

fun ResolveCollisions_impl :: "netenv \<Rightarrow> int \<Rightarrow> nat list \<Rightarrow> AddrMan \<Rightarrow> AddrMan option" where
  "ResolveCollisions_impl env now [] s = Some s"
| "ResolveCollisions_impl env now (it # rest) s =
     (if it \<notin> m_tried_collisions s then ResolveCollisions_impl env now rest s
      else
        (case map_of (m_index s) it of
           None \<Rightarrow> None
         | Some info_new \<Rightarrow>
             (case ResolveCollisions_step env now it info_new s of
                None \<Rightarrow> None
              | Some s' \<Rightarrow> ResolveCollisions_impl env now rest s')))"

subsection \<open>The consistency checker\<close>

text \<open>
  The two iteration orders of the container. \<open>sort_key\<close> is stable, so nodes with equal keys
  stay in insertion order.
\<close>

definition by_address :: "node list \<Rightarrow> node list" where
  "by_address idx = sort_key (\<lambda>(i, e). (service e, is_alias e)) idx"

definition by_bucket :: "node list \<Rightarrow> node list" where
  "by_bucket idx = sort_key (\<lambda>(i, e). ByBucketExtractor e) idx"

text \<open>
  The first loop of \<^verbatim>\<open>CheckAddrman\<close>, over the nodes in address order, with the node before the
  current one: the error code, or the numbers of main entries counted in the two tables.
\<close>

fun CheckAddrman_entries ::
  "netenv \<Rightarrow> AddrMan \<Rightarrow> AddrInfo option \<Rightarrow> node list \<Rightarrow> int \<Rightarrow> int \<Rightarrow> int + (int \<times> int)" where
  "CheckAddrman_entries env s prev [] counted_new counted_tried = Inr (counted_new, counted_tried)"
| "CheckAddrman_entries env s prev ((it, info) # rest) counted_new counted_tried =
     (if nRandomPos info = -1 then
        (if fInTried info then Inl (-1)
         else if prev = None \<or> Some (service info) \<noteq> map_option service prev then Inl (-2)
         else if Rebucket env (nKey s) (m_asmap s) info \<noteq> info then Inl (-5)
         else CheckAddrman_entries env s (Some info) rest counted_new counted_tried)
      else
        (if nRandomPos info < 0 \<or> nat (nRandomPos info) \<ge> length (vRandom s) then Inl (-22)
         else if vRandom s ! nat (nRandomPos info) \<noteq> it then Inl (-23)
         else if prev \<noteq> None \<and> Some (service info) = map_option service prev then Inl (-3)
         else if Rebucket env (nKey s) (m_asmap s) info \<noteq> info then Inl (-5)
         else if fInTried info
              then CheckAddrman_entries env s (Some info) rest counted_new (counted_tried + 1)
              else CheckAddrman_entries env s (Some info) rest (counted_new + 1) counted_tried))"

text \<open>The second loop: no two neighbours in bucket order share a slot.\<close>

fun CheckAddrman_slots :: "node list \<Rightarrow> bool" where
  "CheckAddrman_slots [] = True"
| "CheckAddrman_slots [x] = True"
| "CheckAddrman_slots (x # y # rest) =
     (ByBucketExtractor (snd x) \<noteq> ByBucketExtractor (snd y) \<and> CheckAddrman_slots (y # rest))"

definition CheckAddrman :: "netenv \<Rightarrow> AddrMan \<Rightarrow> int" where
  "CheckAddrman env s =
     (case CheckAddrman_entries env s None (by_address (m_index s)) 0 0 of
        Inl err \<Rightarrow> err
      | Inr (counted_new, counted_tried) \<Rightarrow>
          if counted_new \<noteq> nNew s then -6
          else if counted_tried \<noteq> nTried s then -7
          else if counted_new + counted_tried \<noteq> int (length (vRandom s)) then -8
          else if \<not> CheckAddrman_slots (by_bucket (m_index s)) then -10
          else 0)"

text \<open>\<^verbatim>\<open>Check\<close>: the failing \<^verbatim>\<open>assert(false)\<close> is the result \<open>None\<close>.\<close>

definition Check :: "netenv \<Rightarrow> AddrMan \<Rightarrow> AddrMan option" where
  "Check env s =
     (if m_consistency_check_ratio s = 0 then Some s
      else if randrange (m_consistency_check_ratio s) s \<ge> 1 then Some (rand_next s)
      else if CheckAddrman env (rand_next s) \<noteq> 0 then None
      else Some (rand_next s))"

section \<open>Serialization\<close>

text \<open>
  The stream is a list of the values written with \<^verbatim>\<open><<\<close>, one constructor per C++ type. The
  byte encodings of the values (\<^verbatim>\<open>serialize.h\<close>, \<^verbatim>\<open>protocol.h\<close>, \<^verbatim>\<open>netaddress.h\<close>) are not among
  the modelled files: a read returns the value that was written, and a read that meets another
  type of value or the end of the stream is the stream's failure.
\<close>

datatype ser_item =
    S_u8 "8 word"
  | S_uint256 uint256
  | S_i32 int
  | S_i64 int
  | S_u32 nat
  | S_CAddress CAddress
  | S_CNetAddr CNetAddr

datatype failure = AssertionFailed | IosFailure

definition FILE_FORMAT :: "8 word" where
  "FILE_FORMAT = 5"

definition INCOMPATIBILITY_BASE :: "8 word" where
  "INCOMPATIBILITY_BASE = 32"

text \<open>
  The inner loop of \<^verbatim>\<open>Serialize\<close> walks \<open>alias_count\<close> nodes in address order from the main
  entry and writes their sources. \<open>None\<close> is a failing assertion (or the walk leaving the index).
\<close>

fun Serialize_sources :: "bool \<Rightarrow> nat \<Rightarrow> node list \<Rightarrow> ser_item list option" where
  "Serialize_sources in_tried 0 addrit = Some []"
| "Serialize_sources in_tried (Suc k) [] = None"
| "Serialize_sources in_tried (Suc k) ((i, e) # addrit) =
     (if fInTried e \<noteq> in_tried then None
      else map_option ((#) (S_CNetAddr (source e))) (Serialize_sources in_tried k addrit))"

fun Serialize_entries :: "AddrMan \<Rightarrow> node list \<Rightarrow> int \<Rightarrow> bool \<Rightarrow> ser_item list option" where
  "Serialize_entries s [] n_left in_tried = Some []"
| "Serialize_entries s ((it, e) # rest) n_left in_tried =
     (if nRandomPos e = -1 then Serialize_entries s rest n_left in_tried
      else if n_left = 0 \<and> in_tried then None
      else
        (let in_tried' = (n_left = 0 \<or> in_tried);
             n_left' = (if n_left = 0 then nTried s else n_left);
             alias_count = CountAddr (m_index s) (service e)
         in if in_tried' \<and> alias_count \<noteq> 1 then None
            else
              (case Serialize_sources in_tried' alias_count
                      (dropWhile (\<lambda>(j, x). j \<noteq> it) (by_address (m_index s))) of
                 None \<Rightarrow> None
               | Some srcs \<Rightarrow>
                   (case Serialize_entries s rest (n_left' - 1) in_tried' of
                      None \<Rightarrow> None
                    | Some body \<Rightarrow>
                        Some ([S_CAddress (to_CAddress e), S_i64 (nLastTry e), S_i64 (nLastCountAttempt e),
                               S_i64 (nLastSuccess e), S_i32 (nAttempts e)]
                              @ (if in_tried' then [] else [S_u32 alias_count]) @ srcs @ body)))))"

definition Serialize :: "AddrMan \<Rightarrow> ser_item list option" where
  "Serialize s =
     (case Serialize_entries s (by_bucket (m_index s)) (nNew s) False of
        None \<Rightarrow> None
      | Some body \<Rightarrow>
          Some ([S_u8 FILE_FORMAT, S_u8 (INCOMPATIBILITY_BASE + 5), S_uint256 (nKey s),
                 S_i32 (nNew s), S_i32 (nTried s)] @ body))"

text \<open>The entry made by the default constructor \<^verbatim>\<open>AddrInfo()\<close>.\<close>

definition AddrInfo_default :: AddrInfo where
  "AddrInfo_default =
     \<lparr>service = (0, 0), nTime = 100000000, nServices = 0, source = 0, nLastTry = 0,
      nLastCountAttempt = 0, nLastSuccess = 0, nAttempts = 0, fInTried = False, nRandomPos = -1,
      m_bucket = 0, m_bucketpos = 0\<rparr>"

text \<open>
  The body of the inner loop of \<^verbatim>\<open>Unserialize\<close>: the occupant of the slot is erased, an entry
  of the new table whose address is already there becomes an alias, an entry of the tried table
  removes every node of its address, and the entry is inserted.
\<close>

definition Unserialize_insert :: "netenv \<Rightarrow> AddrInfo \<Rightarrow> AddrMan \<Rightarrow> AddrMan option" where
  "Unserialize_insert env info0 s =
     (let info = Rebucket env (nKey s) (m_asmap s) info0
      in do {
        s1 \<leftarrow> (case find_bucket (m_index s) (ByBucketExtractor info) of
                 Some (it_bucket, x) \<Rightarrow> EraseInner env it_bucket s
               | None \<Rightarrow> Some s);
        (case lower_bound_addr (m_index s1) (service info) of
           Some it_addr \<Rightarrow>
             if fInTried info then do {
               s2 \<leftarrow> erase_all_addr env (service info) s1;
               Some (Insert env info False s2)
             } else Some (Insert env info True s1)
         | None \<Rightarrow> Some (Insert env info False s1))
      })"

fun Unserialize_sources ::
  "netenv \<Rightarrow> AddrInfo \<Rightarrow> nat \<Rightarrow> bool \<Rightarrow> ser_item list \<Rightarrow> AddrMan \<Rightarrow> failure + (ser_item list \<times> AddrMan)" where
  "Unserialize_sources env info 0 first st s = Inr (st, s)"
| "Unserialize_sources env info (Suc k) first st s =
     (case (if first then Inr (info, st)
            else (case st of
                    S_CNetAddr src # st' \<Rightarrow> Inr (info\<lparr>source := src\<rparr>, st')
                  | _ \<Rightarrow> Inl IosFailure)) of
        Inl f \<Rightarrow> Inl f
      | Inr (info1, st1) \<Rightarrow>
          (case Unserialize_insert env info1 s of
             None \<Rightarrow> Inl AssertionFailed
           | Some s' \<Rightarrow> Unserialize_sources env info1 k False st1 s'))"

text \<open>
  Reading the head of one entry: the entry, the number of its sources and the rest of the stream.
  Modelled from the spec: for the formats before 5 the entry is read by \<^verbatim>\<open>AddrInfo\<close>'s own
  serialization, which is not among the sources; the specification calls it a self-contained
  record, here the address, the source, \<^verbatim>\<open>nLastSuccess\<close> and \<^verbatim>\<open>nAttempts\<close>.
\<close>

definition Unserialize_entry ::
  "8 word \<Rightarrow> bool \<Rightarrow> ser_item list \<Rightarrow> failure + (AddrInfo \<times> nat \<times> ser_item list)" where
  "Unserialize_entry format is_new st =
     (if format \<ge> 5 then
        (case st of
           S_CAddress a # S_i64 lt # S_i64 lca # S_i64 ls # S_i32 na # st1 \<Rightarrow>
             (let info = AddrInfo_default\<lparr>service := addr_service a, nTime := addr_nTime a,
                           nServices := addr_nServices a, nLastTry := lt, nLastCountAttempt := lca,
                           nLastSuccess := ls, nAttempts := na\<rparr>
              in case (if is_new then (case st1 of S_u32 n # st2 \<Rightarrow> Inr (n, st2) | _ \<Rightarrow> Inl IosFailure)
                       else Inr (1, st1)) of
                   Inl f \<Rightarrow> Inl f
                 | Inr (sources, st2) \<Rightarrow>
                     if sources \<noteq> 0 then
                       (case st2 of
                          S_CNetAddr src # st3 \<Rightarrow> Inr (info\<lparr>source := src\<rparr>, sources, st3)
                        | _ \<Rightarrow> Inl IosFailure)
                     else Inr (info, sources, st2))
         | _ \<Rightarrow> Inl IosFailure)
      else
        (case st of
           S_CAddress a # S_CNetAddr src # S_i64 ls # S_i32 na # st1 \<Rightarrow>
             Inr (AddrInfo_default\<lparr>service := addr_service a, nTime := addr_nTime a,
                    nServices := addr_nServices a, source := src, nLastSuccess := ls, nAttempts := na\<rparr>,
                  1, st1)
         | _ \<Rightarrow> Inl IosFailure))"

fun Unserialize_entries ::
  "netenv \<Rightarrow> 8 word \<Rightarrow> int \<Rightarrow> int \<Rightarrow> nat \<Rightarrow> ser_item list \<Rightarrow> AddrMan \<Rightarrow> failure + (ser_item list \<times> AddrMan)" where
  "Unserialize_entries env format read_new i 0 st s = Inr (st, s)"
| "Unserialize_entries env format read_new i (Suc k) st s =
     (case Unserialize_entry format (i < read_new) st of
        Inl f \<Rightarrow> Inl f
      | Inr (info, sources, st1) \<Rightarrow>
          (case Unserialize_sources env (info\<lparr>fInTried := (i \<ge> read_new)\<rparr>) sources True st1 s of
             Inl f \<Rightarrow> Inl f
           | Inr (st2, s') \<Rightarrow> Unserialize_entries env format read_new (i + 1) k st2 s'))"

text \<open>The bucket section and the asmap checksum of the formats before 5 are read and ignored.\<close>

fun skip_ints :: "nat \<Rightarrow> ser_item list \<Rightarrow> ser_item list option" where
  "skip_ints 0 st = Some st"
| "skip_ints (Suc k) (S_i32 entry_index # st) = skip_ints k st"
| "skip_ints (Suc k) st = None"

fun Unserialize_buckets :: "nat \<Rightarrow> ser_item list \<Rightarrow> ser_item list option" where
  "Unserialize_buckets 0 st = Some st"
| "Unserialize_buckets (Suc k) (S_i32 num_entries # st) =
     (case skip_ints (nat num_entries) st of
        None \<Rightarrow> None
      | Some st' \<Rightarrow> Unserialize_buckets k st')"
| "Unserialize_buckets (Suc k) st = None"

definition Unserialize_tail :: "8 word \<Rightarrow> int \<Rightarrow> ser_item list \<Rightarrow> ser_item list option" where
  "Unserialize_tail format nUBuckets st =
     (if format < 5 then
        (case Unserialize_buckets (nat nUBuckets) st of
           None \<Rightarrow> None
         | Some st' \<Rightarrow>
             if format \<ge> 2 then (case st' of S_uint256 c # st'' \<Rightarrow> Some st'' | _ \<Rightarrow> None)
             else Some st')
      else Some st)"

definition Unserialize :: "netenv \<Rightarrow> ser_item list \<Rightarrow> AddrMan \<Rightarrow> failure + AddrMan" where
  "Unserialize env st0 s0 =
     (if m_index s0 \<noteq> [] then Inl AssertionFailed
      else
        (case st0 of
           S_u8 format # S_u8 compat_byte # S_uint256 key # S_i32 read_new # S_i32 read_tried # st1 \<Rightarrow>
             if compat_byte - INCOMPATIBILITY_BASE > FILE_FORMAT then Inl IosFailure
             else
               (case (if format < 5 then
                        (case st1 of
                           S_i32 n # st2 \<Rightarrow> Inr (if format \<ge> 1 then n XOR 2 ^ 30 else n, st2)
                         | _ \<Rightarrow> Inl IosFailure)
                      else Inr (0, st1)) of
                  Inl f \<Rightarrow> Inl f
                | Inr (nUBuckets, st2) \<Rightarrow>
                    (case Unserialize_entries env format read_new 0 (nat (read_new + read_tried)) st2
                            (s0\<lparr>nKey := key\<rparr>) of
                       Inl f \<Rightarrow> Inl f
                     | Inr (st3, s) \<Rightarrow>
                         (case Unserialize_tail format nUBuckets st3 of
                            None \<Rightarrow> Inl IosFailure
                          | Some st4 \<Rightarrow>
                              if CheckAddrman env s \<noteq> 0 then Inl IosFailure else Inr s)))
         | _ \<Rightarrow> Inl IosFailure))"

section \<open>The public operations\<close>

text \<open>
  The constructor: an empty manager. \<open>key\<close> is \<open>1\<close> in deterministic mode and drawn from the
  random context otherwise.
\<close>

definition AddrMan_init :: "uint256 \<Rightarrow> bool list \<Rightarrow> nat \<Rightarrow> (nat \<Rightarrow> nat) \<Rightarrow> AddrMan" where
  "AddrMan_init key asmap ratio rnd =
     \<lparr>nKey = key, m_asmap = asmap, m_consistency_check_ratio = ratio, insecure_rand = rnd,
      m_index = [], next_node = 0, vRandom = [], nNew = 0, nTried = 0, nLastGood = 1,
      m_tried_collisions = {}\<rparr>"

text \<open>
  Every public operation takes the lock, runs \<^verbatim>\<open>Check\<close>, its implementation and \<^verbatim>\<open>Check\<close> again.
  \<open>None\<close> is the process aborting on a failed assertion.
\<close>

definition Add ::
  "netenv \<Rightarrow> int \<Rightarrow> CAddress list \<Rightarrow> CNetAddr \<Rightarrow> int \<Rightarrow> AddrMan \<Rightarrow> (bool \<times> AddrMan) option" where
  "Add env now vAddr src nTimePenalty s = do {
     s1 \<leftarrow> Check env s;
     (ret, s2) \<leftarrow> Add_impl env now vAddr src nTimePenalty s1;
     s3 \<leftarrow> Check env s2;
     Some (ret, s3)
   }"

definition Good :: "netenv \<Rightarrow> CService \<Rightarrow> int \<Rightarrow> AddrMan \<Rightarrow> (bool \<times> AddrMan) option" where
  "Good env addr t s = do {
     s1 \<leftarrow> Check env s;
     (ret, s2) \<leftarrow> Good_impl env addr True t s1;
     s3 \<leftarrow> Check env s2;
     Some (ret, s3)
   }"

definition Attempt :: "netenv \<Rightarrow> CService \<Rightarrow> bool \<Rightarrow> int \<Rightarrow> AddrMan \<Rightarrow> AddrMan option" where
  "Attempt env addr fCountFailure t s = do {
     s1 \<leftarrow> Check env s;
     Check env (Attempt_impl env addr fCountFailure t s1)
   }"

definition Connected :: "netenv \<Rightarrow> CService \<Rightarrow> int \<Rightarrow> AddrMan \<Rightarrow> AddrMan option" where
  "Connected env addr t s = do {
     s1 \<leftarrow> Check env s;
     Check env (Connected_impl env addr t s1)
   }"

definition SetServices :: "netenv \<Rightarrow> CService \<Rightarrow> 64 word \<Rightarrow> AddrMan \<Rightarrow> AddrMan option" where
  "SetServices env addr nServices' s = do {
     s1 \<leftarrow> Check env s;
     Check env (SetServices_impl env addr nServices' s1)
   }"

definition ResolveCollisions :: "netenv \<Rightarrow> int \<Rightarrow> nat list \<Rightarrow> AddrMan \<Rightarrow> AddrMan option" where
  "ResolveCollisions env now order s = do {
     s1 \<leftarrow> Check env s;
     s2 \<leftarrow> ResolveCollisions_impl env now order s1;
     Check env s2
   }"

definition SelectTriedCollision ::
  "netenv \<Rightarrow> nat list \<Rightarrow> AddrMan \<Rightarrow> ((CAddress \<times> int) option \<times> AddrMan) option" where
  "SelectTriedCollision env order s = do {
     s1 \<leftarrow> Check env s;
     (ret, s2) \<leftarrow> SelectTriedCollision_impl env order s1;
     s3 \<leftarrow> Check env s2;
     Some (ret, s3)
   }"

definition GetAddr ::
  "netenv \<Rightarrow> int \<Rightarrow> nat \<Rightarrow> nat \<Rightarrow> nat option \<Rightarrow> AddrMan \<Rightarrow> (CAddress list \<times> AddrMan) option" where
  "GetAddr env now max_addresses max_pct network s = do {
     s1 \<leftarrow> Check env s;
     (addresses, s2) \<leftarrow> GetAddr_impl env now max_addresses max_pct network s1;
     s3 \<leftarrow> Check env s2;
     Some (addresses, s3)
   }"

definition FindAddressEntry ::
  "netenv \<Rightarrow> CService \<Rightarrow> AddrMan \<Rightarrow> (AddressPosition option \<times> AddrMan) option" where
  "FindAddressEntry env addr s = do {
     s1 \<leftarrow> Check env s;
     s2 \<leftarrow> Check env s1;
     Some (FindAddressEntry_impl env addr s1, s2)
   }"

text \<open>
  One public call takes the manager from \<open>s\<close> to \<open>s'\<close>. \<^verbatim>\<open>Select\<close> is a \<^verbatim>\<open>const\<close> member that
  draws from the random context and compares the draws with floating-point chances; it writes
  no other member, so its effect on the manager is a later state of the random stream, and the
  rule allows any. \<^verbatim>\<open>Serialize\<close> changes nothing.
\<close>

inductive step :: "netenv \<Rightarrow> AddrMan \<Rightarrow> AddrMan \<Rightarrow> bool" for env :: netenv where
  step_Add: "Add env now vAddr src nTimePenalty s = Some (ret, s') \<Longrightarrow> step env s s'"
| step_Good: "Good env addr t s = Some (ret, s') \<Longrightarrow> step env s s'"
| step_Attempt: "Attempt env addr fCountFailure t s = Some s' \<Longrightarrow> step env s s'"
| step_Connected: "Connected env addr t s = Some s' \<Longrightarrow> step env s s'"
| step_SetServices: "SetServices env addr nServices' s = Some s' \<Longrightarrow> step env s s'"
| step_ResolveCollisions:
    "set order = m_tried_collisions s \<Longrightarrow> distinct order \<Longrightarrow>
     ResolveCollisions env now order s = Some s' \<Longrightarrow> step env s s'"
| step_SelectTriedCollision:
    "set order = m_tried_collisions s \<Longrightarrow> distinct order \<Longrightarrow>
     SelectTriedCollision env order s = Some (ret, s') \<Longrightarrow> step env s s'"
| step_Select: "step env s (s\<lparr>insecure_rand := rnd\<rparr>)"
| step_GetAddr: "GetAddr env now max_addresses max_pct network s = Some (addresses, s') \<Longrightarrow> step env s s'"
| step_FindAddressEntry: "FindAddressEntry env addr s = Some (ret, s') \<Longrightarrow> step env s s'"

text \<open>
  The managers a program can hold: a constructed one, one that \<^verbatim>\<open>Unserialize\<close> has filled from
  a stream without throwing, and what public calls make of them.
\<close>

inductive reachable :: "netenv \<Rightarrow> AddrMan \<Rightarrow> bool" for env :: netenv where
  reachable_init: "reachable env (AddrMan_init key asmap ratio rnd)"
| reachable_load:
    "Unserialize env st (AddrMan_init key asmap ratio rnd) = Inr s \<Longrightarrow> reachable env s"
| reachable_step: "reachable env s \<Longrightarrow> step env s s' \<Longrightarrow> reachable env s'"

subsection \<open>The bucket functions as the specification words them\<close>

text \<open>
  The specification gives the three bucket functions as nested hashes: \<open>H\<close> is the keyed
  64-bit hash, \<open>\<parallel>\<close> the concatenation of the serialised arguments, and the moduli are
  8, 256, 64, 1024 and 64.
\<close>

definition spec_tried_bucket :: "netenv \<Rightarrow> uint256 \<Rightarrow> bool list \<Rightarrow> CService \<Rightarrow> int" where
  "spec_tried_bucket env K asmap a =
     (let b1 = GetCheapHash env [HKey K, HBytes (GetKey env a)] mod 8
      in uint (GetCheapHash env [HKey K, HBytes (GetGroup env asmap (fst a)), HU64 b1] mod 256))"

definition spec_new_bucket :: "netenv \<Rightarrow> uint256 \<Rightarrow> bool list \<Rightarrow> CService \<Rightarrow> CNetAddr \<Rightarrow> int" where
  "spec_new_bucket env K asmap a src =
     (let b1 = GetCheapHash env [HKey K, HBytes (GetGroup env asmap (fst a)),
                                 HBytes (GetGroup env asmap src)] mod 64
      in uint (GetCheapHash env [HKey K, HBytes (GetGroup env asmap src), HU64 b1] mod 1024))"

definition spec_bucket_pos :: "netenv \<Rightarrow> uint256 \<Rightarrow> bool \<Rightarrow> int \<Rightarrow> CService \<Rightarrow> int" where
  "spec_bucket_pos env K is_new nBucket a =
     uint (GetCheapHash env [HKey K, HU8 (of_char (if is_new then CHR ''N'' else CHR ''K'')),
                             HInt nBucket, HBytes (GetKey env a)] mod 64)"

section \<open>A small instance to run the manager on\<close>

text \<open>
  Collaborators under which the operations can be evaluated: every address is routable, the
  group of an address is its low byte, and the hash sends every address to position 0 of the
  tried bucket of its group, and to the bucket of the source's group in the new table, at a
  position given by the bytes of the address.
\<close>

definition toy_hash :: "hash_item list \<Rightarrow> 64 word" where
  "toy_hash items =
     (case items of
        [HKey k, HU8 t, HInt b, HBytes key] \<Rightarrow> (if t = 75 then 0 else of_nat (sum_list (map unat key)))
      | [HKey k, HBytes g, HU64 b] \<Rightarrow> of_nat (sum_list (map unat g))
      | _ \<Rightarrow> 0)"

definition toy_env :: netenv where
  "toy_env = \<lparr>GetCheapHash = toy_hash,
              GetKey = (\<lambda>a. [of_nat (fst a div 256), of_nat (fst a), of_nat (snd a)]),
              GetGroup = (\<lambda>asmap a. [of_nat a]), IsRoutable = (\<lambda>a. True),
              GetNetClass = (\<lambda>a. 0)\<rparr>"

definition toy_rand :: "nat \<Rightarrow> nat" where "toy_rand i = 0"

text \<open>
  A manager holding the single address \<open>(1, 0)\<close>, heard from the source \<open>7\<close> with the time
  \<open>t\<close>: what \<^verbatim>\<open>Add\<close> makes of the empty manager.
\<close>

definition toy_entry :: "32 word \<Rightarrow> AddrInfo" where
  "toy_entry t =
     \<lparr>service = (1, 0), nTime = t, nServices = 1, source = 7, nLastTry = 0, nLastCountAttempt = 0,
      nLastSuccess = 0, nAttempts = 0, fInTried = False, nRandomPos = 0, m_bucket = 7, m_bucketpos = 1\<rparr>"

definition toy_one :: "32 word \<Rightarrow> AddrMan" where
  "toy_one t =
     \<lparr>nKey = 1, m_asmap = [], m_consistency_check_ratio = 0, insecure_rand = toy_rand,
      m_index = [(0, toy_entry t)], next_node = 1, vRandom = [0], nNew = 1, nTried = 0,
      nLastGood = 1, m_tried_collisions = {}\<rparr>"

text \<open>The same address with an alias from the source \<open>8\<close>.\<close>

definition toy_two :: AddrMan where
  "toy_two =
     \<lparr>nKey = 1, m_asmap = [], m_consistency_check_ratio = 0, insecure_rand = toy_rand,
      m_index = [(0, toy_entry 1000),
                 (1, (toy_entry 2000)\<lparr>source := 8, nRandomPos := -1, m_bucket := 8\<rparr>)],
      next_node = 2, vRandom = [0], nNew = 1, nTried = 0, nLastGood = 1, m_tried_collisions = {}\<rparr>"

text \<open>
  Twelve addresses \<open>(256 k, 0)\<close> of one group, all heard from the source \<open>500\<close>. Address \<open>0\<close> is
  in the tried table; the others are in the new table, they all map to its slot of the tried
  table, and ten of them are in the collision set.
\<close>

definition toy_peer :: "nat \<Rightarrow> int \<Rightarrow> int \<Rightarrow> AddrInfo" where
  "toy_peer k t pos =
     \<lparr>service = (256 * k, 0), nTime = 1000, nServices = 1, source = 500, nLastTry = t,
      nLastCountAttempt = 0, nLastSuccess = t, nAttempts = 0, fInTried = False, nRandomPos = pos,
      m_bucket = 244, m_bucketpos = int k\<rparr>"

definition toy_full :: AddrMan where
  "toy_full =
     \<lparr>nKey = 1, m_asmap = [], m_consistency_check_ratio = 0, insecure_rand = toy_rand,
      m_index =
        [(1, toy_peer 1 5000 1), (2, toy_peer 2 5000 2), (3, toy_peer 3 5000 3), (4, toy_peer 4 5000 4),
         (5, toy_peer 5 5000 5), (6, toy_peer 6 5000 6), (7, toy_peer 7 5000 7), (8, toy_peer 8 5000 8),
         (9, toy_peer 9 5000 9), (10, toy_peer 10 5000 10), (11, toy_peer 11 0 0),
         (12, (toy_peer 0 5000 11)\<lparr>fInTried := True, m_bucket := 0\<rparr>)],
      next_node = 13, vRandom = [11, 1, 2, 3, 4, 5, 6, 7, 8, 9, 10, 12], nNew = 11, nTried = 1,
      nLastGood = 5000, m_tried_collisions = {1, 2, 3, 4, 5, 6, 7, 8, 9, 10}\<rparr>"

text \<open>The time stored for an address, for reading a manager in the examples.\<close>

definition stored_nTime :: "CService \<Rightarrow> AddrMan \<Rightarrow> 32 word option" where
  "stored_nTime a s = map_option (nTime \<circ> snd) (find_addr (m_index s) a False)"


text \<open>
  A stream in the format \<^verbatim>\<open>V5_MULTIINDEX\<close> with one entry of the new table, the address
  \<open>(1, 0)\<close>, announced by nine sources that fall into nine buckets.
\<close>

definition nine_sources :: "ser_item list" where
  "nine_sources =
     [S_u8 5, S_u8 37, S_uint256 1, S_i32 1, S_i32 0,
      S_CAddress \<lparr>addr_service = (1, 0), addr_nTime = 1000, addr_nServices = 1\<rparr>,
      S_i64 0, S_i64 0, S_i64 0, S_i32 0, S_u32 9,
      S_CNetAddr 1, S_CNetAddr 2, S_CNetAddr 3, S_CNetAddr 4, S_CNetAddr 5,
      S_CNetAddr 6, S_CNetAddr 7, S_CNetAddr 8, S_CNetAddr 9]"
section \<open>Lemmas about the index\<close>

lemma find_map_same:
  "(\<And>x. x \<in> set xs \<Longrightarrow> P (g x) = P x) \<Longrightarrow> List.find P (map g xs) = map_option g (List.find P xs)"
  by (induction xs) auto

lemma map_of_distinct_Some: "distinct (map fst idx) \<Longrightarrow> (it, e) \<in> set idx \<Longrightarrow> map_of idx it = Some e"
  by simp

lemma map_of_set_node:
  "map_of (set_node it e idx) j = (if j = it \<and> it \<in> set (map fst idx) then Some e else map_of idx j)"
  by (induction idx) (force simp: set_node_def)+

lemma service_Rebucket [simp]: "service (Rebucket env k a e) = service e"
  and source_Rebucket [simp]: "source (Rebucket env k a e) = source e"
  and fInTried_Rebucket [simp]: "fInTried (Rebucket env k a e) = fInTried e"
  and nRandomPos_Rebucket [simp]: "nRandomPos (Rebucket env k a e) = nRandomPos e"
  and nTime_Rebucket [simp]: "nTime (Rebucket env k a e) = nTime e"
  and nServices_Rebucket [simp]: "nServices (Rebucket env k a e) = nServices e"
  and nLastTry_Rebucket [simp]: "nLastTry (Rebucket env k a e) = nLastTry e"
  and nLastCountAttempt_Rebucket [simp]: "nLastCountAttempt (Rebucket env k a e) = nLastCountAttempt e"
  and nLastSuccess_Rebucket [simp]: "nLastSuccess (Rebucket env k a e) = nLastSuccess e"
  and nAttempts_Rebucket [simp]: "nAttempts (Rebucket env k a e) = nAttempts e"
  by (simp_all add: Rebucket_def Let_def)

lemma is_alias_Rebucket [simp]: "is_alias (Rebucket env k a e) = is_alias e"
  by (simp add: is_alias_def)

lemma GetTriedBucket_cong: "service e = service e' \<Longrightarrow> GetTriedBucket env k a e = GetTriedBucket env k a e'"
  by (simp add: GetTriedBucket_def)

lemma GetBucketPosition_cong: "service e = service e' \<Longrightarrow> GetBucketPosition env k n b e = GetBucketPosition env k n b e'"
  by (simp add: GetBucketPosition_def)

lemma CountAddr_0_find: "CountAddr idx a = 0 \<Longrightarrow> find_addr idx a b = None"
  by (auto simp: CountAddr_def find_addr_def find_None_iff filter_empty_conv)

lemma Modify_Some:
  assumes "map_of (m_index s) it = Some e"
  shows "m_index (Modify env it f s) = set_node it (Rebucket env (nKey s) (m_asmap s) (f e)) (m_index s)"
    and "m_tried_collisions (Modify env it f s) = m_tried_collisions s"
    and "vRandom (Modify env it f s) = vRandom s"
    and "nKey (Modify env it f s) = nKey s"
    and "m_asmap (Modify env it f s) = m_asmap s"
    and "next_node (Modify env it f s) = next_node s"
    and "insecure_rand (Modify env it f s) = insecure_rand s"
    and "nLastGood (Modify env it f s) = nLastGood s"
  using assms by (simp_all add: Modify_def Let_def UpdateStat_def)

lemma find_addr_set_node:
  assumes "find_addr idx a b = Some (it, e0)" "distinct (map fst idx)"
    "service e' = a" "is_alias e' = b"
  shows "find_addr (set_node it e' idx) a b = Some (it, e')"
  using assms
proof (induction idx)
  case Nil
  then show ?case by (simp add: find_addr_def)
next
  case (Cons x idx)
  obtain i e where x: "x = (i, e)" by (cases x)
  show ?case
  proof (cases "service e = a \<and> is_alias e = b")
    case True
    with Cons.prems x have "i = it" by (simp add: find_addr_def)
    with True Cons.prems x show ?thesis by (simp add: find_addr_def set_node_def)
  next
    case False
    with Cons.prems x have f: "find_addr idx a b = Some (it, e0)" by (auto simp: find_addr_def)
    then have "it \<in> set (map fst idx)" by (rule find_addr_fst)
    with Cons.prems x have "i \<noteq> it" by auto
    with False x Cons.IH [OF f] Cons.prems show ?thesis
      by (auto simp: find_addr_def set_node_def)
  qed
qed

lemma find_bucket_set_node_other:
  assumes "distinct (map fst idx)" "(it, e0) \<in> set idx"
    "ByBucketExtractor e0 \<noteq> v" "ByBucketExtractor e' \<noteq> v"
  shows "find_bucket (set_node it e' idx) v = find_bucket idx v"
  using assms
proof (induction idx)
  case Nil
  then show ?case by simp
next
  case (Cons x idx)
  obtain i e where x: "x = (i, e)" by (cases x)
  show ?case
  proof (cases "i = it")
    case True
    with Cons.prems x have e: "e = e0" by (auto simp: image_iff)
    have "it \<notin> set (map fst idx)" using Cons.prems x True by simp
    then have "set_node it e' idx = idx"
      by (induction idx) (auto simp: set_node_def)
    with True e x Cons.prems show ?thesis
      by (simp add: find_bucket_def set_node_def)
  next
    case False
    with Cons.prems x have "(it, e0) \<in> set idx" by auto
    with Cons.IH Cons.prems have "find_bucket (set_node it e' idx) v = find_bucket idx v" by simp
    with False x show ?thesis
      by (simp add: find_bucket_def set_node_def)
  qed
qed

lemma map_of_del_node: "map_of (del_node i idx) j = (if j = i then None else map_of idx j)"
  by (induction idx) (auto simp: del_node_def)

lemma map_of_set_random_pos:
  "map_of (set_random_pos i p idx) j =
     map_option (\<lambda>x. if j = i then x\<lparr>nRandomPos := int p\<rparr> else x) (map_of idx j)"
  by (induction idx) (auto simp: set_random_pos_def)

lemma map_of_SomeD_mem: "map_of idx i = Some e \<Longrightarrow> (i, e) \<in> set idx"
  by (rule map_of_SomeD)

lemma distinct_ids_unique:
  "distinct (map fst idx) \<Longrightarrow> (i, e) \<in> set idx \<Longrightarrow> (i, e') \<in> set idx \<Longrightarrow> e = e'"
  by (meson eq_key_imp_eq_value)

lemma CountAddr_set_node:
  assumes "distinct (map fst idx)" "map_of idx it = Some e" "service e' = service e"
  shows "CountAddr (set_node it e' idx) a = CountAddr idx a"
  using assms
proof (induction idx)
  case Nil
  then show ?case by simp
next
  case (Cons x idx)
  obtain i y where x: "x = (i, y)" by (cases x)
  show ?case
  proof (cases "i = it")
    case True
    with Cons.prems x have "it \<notin> set (map fst idx)" "y = e" by auto
    then have "set_node it e' idx = idx"
      by (induction idx) (auto simp: set_node_def)
    with True x \<open>y = e\<close> Cons.prems(3) show ?thesis
      by (simp add: CountAddr_def set_node_def)
  next
    case False
    with Cons x show ?thesis
      by (simp add: CountAddr_def set_node_def)
  qed
qed

lemma CountAddr_del_node:
  assumes "distinct (map fst idx)" "map_of idx it = Some e"
  shows "CountAddr (del_node it idx) a + (if service e = a then 1 else 0) = CountAddr idx a"
  using assms
proof (induction idx)
  case Nil
  then show ?case by simp
next
  case (Cons x idx)
  obtain i y where x: "x = (i, y)" by (cases x)
  show ?case
  proof (cases "i = it")
    case True
    with Cons.prems x have "it \<notin> set (map fst idx)" "y = e" by auto
    then have "del_node it idx = idx"
      by (induction idx) (auto simp: del_node_def)
    with True x \<open>y = e\<close> show ?thesis
      by (simp add: CountAddr_def del_node_def)
  next
    case False
    with Cons x show ?thesis
      by (simp add: CountAddr_def del_node_def)
  qed
qed

lemma distinct_set_node [simp]: "distinct (map fst (set_node it e idx)) = distinct (map fst idx)"
  by simp

definition core :: "AddrInfo \<Rightarrow> AddrInfo" where
  "core e = e\<lparr>nRandomPos := 0\<rparr>"

lemma core_fields:
  "core e = core e' \<Longrightarrow> service e = service e' \<and> source e = source e' \<and> nTime e = nTime e'
     \<and> nServices e = nServices e' \<and> nLastTry e = nLastTry e' \<and> nLastCountAttempt e = nLastCountAttempt e'
     \<and> nLastSuccess e = nLastSuccess e' \<and> nAttempts e = nAttempts e' \<and> fInTried e = fInTried e'
     \<and> m_bucket e = m_bucket e' \<and> m_bucketpos e = m_bucketpos e'"
  unfolding core_def by (cases e, cases e') simp

lemma map_of_Insert:
  "map_of (m_index s) it = Some e \<Longrightarrow> map_of (m_index (Insert env info alias s)) it = Some e"
  by (simp add: Insert_def Let_def map_add_def)

lemma SwapRandom_map_of_core:
  assumes "SwapRandom p q s = Some s'" "map_of (m_index s) j = Some e"
  shows "\<exists>e'. map_of (m_index s') j = Some e' \<and> core e' = core e"
  using assms
  by (auto simp: SwapRandom_def Let_def map_of_set_random_pos core_def split: if_splits)

lemma erase_node_map_of:
  "j \<noteq> it \<Longrightarrow> map_of (m_index (erase_node it s)) j = map_of (m_index s) j"
  by (simp add: erase_node_def Let_def map_of_del_node split: option.splits)

lemma EraseInner_frame:
  assumes er: "EraseInner env it s = Some s'"
    and d: "distinct (map fst (m_index s))"
    and m: "map_of (m_index s) it = Some e"
    and mj: "map_of (m_index s) j = Some ej"
    and ne: "service ej \<noteq> service e"
  shows "\<exists>e'. map_of (m_index s') j = Some e' \<and> core e' = core ej"
proof -
  have jit: "j \<noteq> it" using m mj ne by auto
  show ?thesis
  proof (cases "nRandomPos e \<noteq> -1")
    case False
    with er m have "s' = erase_node it s" by (simp add: EraseInner_def)
    with jit mj show ?thesis by (simp add: erase_node_map_of)
  next
    case canon: True
    show ?thesis
    proof (cases "find_addr (m_index s) (service e) True")
      case None
      with er m canon obtain s1 where
        s1: "SwapRandom (nat (nRandomPos e)) (length (vRandom s) - 1) s = Some s1"
        and s': "s' = erase_node it (s1\<lparr>vRandom := butlast (vRandom s1)\<rparr>)"
        by (auto simp: EraseInner_def split: option.splits if_splits)
      from SwapRandom_map_of_core [OF s1 mj] obtain e' where
        "map_of (m_index s1) j = Some e'" "core e' = core ej" by blast
      with jit s' show ?thesis by (simp add: erase_node_map_of)
    next
      case (Some p)
      obtain ia ea where p: "p = (ia, ea)" by (cases p)
      let ?s1 = "if ia \<in> m_tried_collisions s
                 then s\<lparr>m_tried_collisions := insert it (m_tried_collisions s)\<rparr> else s"
      let ?f = "\<lambda>info::AddrInfo. info\<lparr>source := source ea\<rparr>"
      have s': "s' = erase_node ia (Modify env it ?f ?s1)"
        using er m canon Some p by (simp add: EraseInner_def Let_def)
      have ea: "(ia, ea) \<in> set (m_index s)" "service ea = service e"
        using find_addr_SomeD [of "m_index s" "service e" True ia ea] Some p by auto
      have "(j, ej) \<in> set (m_index s)" using mj by (rule map_of_SomeD)
      with ea ne d have jia: "j \<noteq> ia"
        using distinct_ids_unique [OF d, of j ej ea] by auto
      have m1: "map_of (m_index ?s1) it = Some e" using m by simp
      have "map_of (m_index (Modify env it ?f ?s1)) j = Some ej"
        using Modify_Some(1) [OF m1, of env ?f] jit mj by (simp add: map_of_set_node)
      with jia s' show ?thesis by (simp add: erase_node_map_of)
    qed
  qed
qed

lemma find_bucket_map_of:
  "distinct (map fst idx) \<Longrightarrow> find_bucket idx v = Some (it, e) \<Longrightarrow> map_of idx it = Some e"
  by (drule find_bucket_SomeD) simp

lemma AddSingle_place_frame:
  assumes p: "AddSingle_place env now addr info alias s = Some (r, s')"
    and d: "distinct (map fst (m_index s))"
    and mj: "map_of (m_index s) j = Some ej"
    and sv: "service ej = addr_service addr"
  shows "\<exists>e'. map_of (m_index s') j = Some e' \<and> core e' = core ej"
proof (cases "find_bucket (m_index s) (ByBucketExtractor (Rebucket env (nKey s) (m_asmap s) info))")
  case None
  with p have "s' = Insert env (Rebucket env (nKey s) (m_asmap s) info) alias s"
    by (auto simp: AddSingle_place_def Let_def)
  with mj show ?thesis by (simp add: map_of_Insert)
next
  case (Some q)
  obtain io eo where q: "q = (io, eo)" by (cases q)
  have mo: "map_of (m_index s) io = Some eo"
    using find_bucket_map_of [OF d] Some q by simp
  show ?thesis
  proof (cases "service eo \<noteq> addr_service addr \<and>
      (IsTerrible eo now \<or> (\<not> alias \<and> CountAddr (m_index s) (service eo) > 1))")
    case False
    with p Some q have "s' = s"
      by (auto simp: AddSingle_place_def Let_def split: if_splits)
    with mj show ?thesis by simp
  next
    case True
    with p Some q obtain s1 where
      s1: "EraseInner env io s = Some s1"
      and s': "s' = Insert env (Rebucket env (nKey s) (m_asmap s) info) alias s1"
      by (auto simp: AddSingle_place_def Let_def split: if_splits Option.bind_splits)
    from True sv have "service ej \<noteq> service eo" by auto
    from EraseInner_frame [OF s1 d mo mj this] obtain e' where
      "map_of (m_index s1) j = Some e'" "core e' = core ej" by blast
    with s' show ?thesis by (simp add: map_of_Insert)
  qed
qed


lemma AddSingle_alias_cases:
  assumes "AddSingle_alias env now addr info e s = Some (r, s')"
  shows "s' = s \<or> s' = rand_next s
       \<or> AddSingle_place env now addr info True s = Some (r, s')
       \<or> AddSingle_place env now addr info True (rand_next s) = Some (r, s')"
  using assms unfolding AddSingle_alias_def Let_def
  by (auto split: if_splits)

lemma AddSingle_refresh_entry:
  assumes m0: "map_of (m_index s) it = Some e0"
  shows "\<exists>e. map_of (m_index (AddSingle_refresh env now addr pen it e0 s)) it = Some e
           \<and> service e = service e0
           \<and> nTime e = (if time_update_due now addr pen e0
                         then word_of_int (max 0 (uint (addr_nTime addr) - pen)) else nTime e0)"
    and "map fst (m_index (AddSingle_refresh env now addr pen it e0 s)) = map fst (m_index s)"
proof -
  let ?ft = "\<lambda>info::AddrInfo. info\<lparr>nTime := word_of_int (max 0 (uint (addr_nTime addr) - pen))\<rparr>"
  let ?fs = "\<lambda>info::AddrInfo. info\<lparr>nServices := nServices info OR addr_nServices addr\<rparr>"
  have it_in: "it \<in> set (map fst (m_index s))"
    using map_of_SomeD [OF m0] by force
  show "map fst (m_index (AddSingle_refresh env now addr pen it e0 s)) = map fst (m_index s)"
    by (simp add: AddSingle_refresh_def Let_def)
  show "\<exists>e. map_of (m_index (AddSingle_refresh env now addr pen it e0 s)) it = Some e
           \<and> service e = service e0
           \<and> nTime e = (if time_update_due now addr pen e0
                         then word_of_int (max 0 (uint (addr_nTime addr) - pen)) else nTime e0)"
  proof (cases "time_update_due now addr pen e0")
    case True
    let ?s1 = "Modify env it ?ft s"
    let ?e1 = "Rebucket env (nKey s) (m_asmap s) (?ft e0)"
    have m1: "map_of (m_index ?s1) it = Some ?e1"
      using it_in Modify_Some(1) [OF m0, of env ?ft] by (simp add: map_of_set_node)
    have it1: "it \<in> set (map fst (m_index ?s1))" using it_in by simp
    have "map_of (m_index (Modify env it ?fs ?s1)) it
            = Some (Rebucket env (nKey ?s1) (m_asmap ?s1) (?fs ?e1))"
      using it1 Modify_Some(1) [OF m1, of env ?fs] by (simp add: map_of_set_node)
    with True show ?thesis
      by (simp add: AddSingle_refresh_def Let_def)
  next
    case False
    have "map_of (m_index (Modify env it ?fs s)) it
            = Some (Rebucket env (nKey s) (m_asmap s) (?fs e0))"
      using it_in Modify_Some(1) [OF m0, of env ?fs] by (simp add: map_of_set_node)
    with False show ?thesis
      by (simp add: AddSingle_refresh_def Let_def)
  qed
qed

lemma AddSingle_existing:
  assumes "IsRoutable env (fst (addr_service addr))"
    and "find_addr (m_index s) (addr_service addr) False = Some (it, e0)"
  shows "AddSingle env now addr src nTimePenalty s =
     (case map_of (m_index (AddSingle_refresh env now addr
                     (if fst (addr_service addr) = src then 0 else nTimePenalty) it e0 s)) it of
        None \<Rightarrow> None
      | Some e \<Rightarrow> AddSingle_alias env now addr ((AddrInfo_init addr src)\<lparr>fInTried := False\<rparr>) e
          (AddSingle_refresh env now addr
             (if fst (addr_service addr) = src then 0 else nTimePenalty) it e0 s))"
  using assms unfolding AddSingle_def Let_def by simp

lemma GetAddr_loop_bound:
  "GetAddr_loop env now nNodes network n addresses s = Some (r, s') \<Longrightarrow>
   length addresses \<le> nNodes \<Longrightarrow> length r \<le> nNodes"
proof (induction env now nNodes network n addresses s rule: GetAddr_loop.induct)
  case (1 env now nNodes network n addresses s)
  note eq = GetAddr_loop.simps [of env now nNodes network n addresses s]
  show ?case
  proof (cases "n < length (vRandom s) \<and> \<not> nNodes \<le> length addresses")
    case False
    with "1.prems" eq show ?thesis
      by (auto split: if_splits)
  next
    case True
    let ?p = "randrange (length (vRandom s) - n) s + n"
    from True "1.prems"(1) eq obtain s1 ai where
      s1: "SwapRandom n ?p (rand_next s) = Some s1"
      and ai: "map_of (m_index s1) (vRandom s1 ! n) = Some ai"
      by (auto simp: Let_def split: option.splits)
    show ?thesis
    proof (cases "network \<noteq> None \<and> Some (GetNetClass env (fst (service ai))) \<noteq> network")
      case filtered: True
      with True s1 ai "1.prems"(1) eq
      have "GetAddr_loop env now nNodes network (Suc n) addresses s1 = Some (r, s')"
        by (auto simp: Let_def split: if_splits)
      with "1.IH"(1) [OF _ _ refl s1 ai filtered] True "1.prems"(2) show ?thesis
        by simp
    next
      case passed: False
      show ?thesis
      proof (cases "IsTerrible ai now")
        case terrible: True
        with passed True s1 ai "1.prems"(1) eq
        have "GetAddr_loop env now nNodes network (Suc n) addresses s1 = Some (r, s')"
          by (auto simp: Let_def split: if_splits)
        with "1.IH"(2) [OF _ _ refl s1 ai passed terrible] True "1.prems"(2) show ?thesis
          by simp
      next
        case good: False
        with passed True s1 ai "1.prems"(1) eq
        have "GetAddr_loop env now nNodes network (Suc n) (addresses @ [to_CAddress ai]) s1 = Some (r, s')"
          by (auto simp: Let_def split: if_splits)
        moreover have "length (addresses @ [to_CAddress ai]) \<le> nNodes"
          using True by simp
        ultimately show ?thesis
          using "1.IH"(3) [OF _ _ refl s1 ai passed good] True by simp
      qed
    qed
  qed
qed

lemma Good_impl_collision:
  assumes d: "distinct (map fst (m_index s))"
    and f: "find_addr (m_index s) addr False = Some (it, e0)"
    and nt: "\<not> fInTried e0"
    and occ: "find_bucket (m_index s)
               (True, GetTriedBucket env (nKey s) (m_asmap s) e0,
                GetBucketPosition env (nKey s) False (GetTriedBucket env (nKey s) (m_asmap s) e0) e0)
              = Some occupant"
  shows "\<exists>s' e'. Good_impl env addr True t s = Some (False, s')
          \<and> m_tried_collisions s' =
              (if card (m_tried_collisions s) < ADDRMAN_SET_TRIED_COLLISION_SIZE
               then insert it (m_tried_collisions s) else m_tried_collisions s)
          \<and> find_addr (m_index s') addr False = Some (it, e') \<and> \<not> fInTried e'
          \<and> nLastSuccess e' = t \<and> nLastTry e' = t \<and> nAttempts e' = 0
          \<and> map fst (m_index s') = map fst (m_index s)
          \<and> find_bucket (m_index s') (ByBucketExtractor (snd occupant)) = Some occupant"
proof -
  let ?s0 = "s\<lparr>nLastGood := t\<rparr>"
  let ?fn = "\<lambda>info::AddrInfo. info\<lparr>nLastSuccess := t, nLastTry := t, nAttempts := 0\<rparr>"
  let ?e' = "Rebucket env (nKey s) (m_asmap s) (?fn e0)"
  let ?s1 = "Modify env it ?fn ?s0"
  let ?v = "(True, GetTriedBucket env (nKey s) (m_asmap s) e0,
                GetBucketPosition env (nKey s) False (GetTriedBucket env (nKey s) (m_asmap s) e0) e0)"
  have mem: "(it, e0) \<in> set (m_index s)" and sv: "service e0 = addr" and al: "is_alias e0 = False"
    using find_addr_SomeD [OF f] by auto
  have f0: "find_addr (m_index ?s0) addr False = Some (it, e0)"
    using f by simp
  have m0: "map_of (m_index ?s0) it = Some e0"
    using d mem by simp
  have idx1: "m_index ?s1 = set_node it ?e' (m_index s)"
    using Modify_Some(1) [OF m0, of env ?fn] by simp
  have coll1: "m_tried_collisions ?s1 = m_tried_collisions s"
    using Modify_Some(2) [OF m0, of env ?fn] by simp
  have keys: "nKey ?s1 = nKey s" "m_asmap ?s1 = m_asmap s"
    using Modify_Some(4,5) [OF m0, of env ?fn] by simp_all
  have e'_props: "service ?e' = addr" "is_alias ?e' = False" "\<not> fInTried ?e'"
      "nLastSuccess ?e' = t" "nLastTry ?e' = t" "nAttempts ?e' = 0"
    using sv al nt by (simp_all add: is_alias_def)
  have m1: "map_of (m_index ?s1) it = Some ?e'"
    unfolding idx1 using mem by (force simp: map_of_set_node)
  have f1: "find_addr (m_index ?s1) addr False = Some (it, ?e')"
    unfolding idx1 using f d e'_props by (intro find_addr_set_node) auto
  have tb: "GetTriedBucket env (nKey s) (m_asmap s) ?e' = GetTriedBucket env (nKey s) (m_asmap s) e0"
    by (rule GetTriedBucket_cong) simp
  have tp: "GetBucketPosition env (nKey s) False b ?e' = GetBucketPosition env (nKey s) False b e0" for b
    by (rule GetBucketPosition_cong) simp
  have fb: "find_bucket (m_index ?s1) ?v = find_bucket (m_index s) ?v"
    unfolding idx1 using d mem nt e'_props(3)
    by (intro find_bucket_set_node_other [where ?e0.0 = e0]) (auto simp: ByBucketExtractor_def)
  obtain io eo where occupant: "occupant = (io, eo)" by (cases occupant)
  have eo: "(io, eo) \<in> set (m_index s)" "ByBucketExtractor eo = ?v"
    using find_bucket_SomeD [of "m_index s" ?v io eo] occ occupant by auto
  have fbo: "find_bucket (m_index ?s1) (ByBucketExtractor (snd occupant)) = Some occupant"
    using fb occ eo occupant by simp
  have "Good_impl env addr True t s
        = Some (False, if card (m_tried_collisions s) < ADDRMAN_SET_TRIED_COLLISION_SIZE
                          then ?s1\<lparr>m_tried_collisions := insert it (m_tried_collisions s)\<rparr> else ?s1)"
    unfolding Good_impl_def Let_def f0 option.case prod.case m1 keys tb tp fb occ coll1
    using e'_props(3) by simp
  then show ?thesis
    using f1 e'_props coll1 fbo idx1 by auto
qed

subsection \<open>Facts about the example managers\<close>

lemma toy_one_reached:
  "Add toy_env 5000 [\<lparr>addr_service = (1, 0), addr_nTime = 10000, addr_nServices = 1\<rparr>] 7 0
     (AddrMan_init 1 [] 0 toy_rand) = Some (True, toy_one 10000)"
  by (simp add: Add_def Check_def AddrMan_init_def Add_impl_def AddSingle_def toy_env_def
      find_addr_def AddSingle_place_def AddrInfo_init_def Rebucket_def GetNewBucket_def
      GetBucketPosition_def toy_hash_def find_bucket_def ByBucketExtractor_def Insert_def
      UpdateStat_def toy_one_def toy_entry_def Let_def
      ADDRMAN_NEW_BUCKETS_PER_SOURCE_GROUP_def ADDRMAN_NEW_BUCKET_COUNT_def ADDRMAN_BUCKET_SIZE_def)

lemma toy_two_check: "CheckAddrman toy_env toy_two = 0"
  by code_simp

lemma toy_full_distinct: "distinct (map fst (m_index toy_full))"
  by (simp add: toy_full_def)

lemma toy_full_find: "find_addr (m_index toy_full) (2816, 0) False = Some (11, toy_peer 11 0 0)"
  by (simp add: toy_full_def find_addr_def toy_peer_def is_alias_def)

lemma toy_full_slot:
  "find_bucket (m_index toy_full)
     (True, GetTriedBucket toy_env (nKey toy_full) (m_asmap toy_full) (toy_peer 11 0 0),
      GetBucketPosition toy_env (nKey toy_full) False
        (GetTriedBucket toy_env (nKey toy_full) (m_asmap toy_full) (toy_peer 11 0 0)) (toy_peer 11 0 0))
   = Some (12, (toy_peer 0 5000 11)\<lparr>fInTried := True, m_bucket := 0\<rparr>)"
  by (simp add: toy_full_def find_bucket_def toy_peer_def ByBucketExtractor_def
      GetTriedBucket_def GetBucketPosition_def toy_env_def toy_hash_def
      ADDRMAN_TRIED_BUCKETS_PER_GROUP_def ADDRMAN_TRIED_BUCKET_COUNT_def ADDRMAN_BUCKET_SIZE_def)

lemma toy_full_card: "card (m_tried_collisions toy_full) = 10"
  by (simp add: toy_full_def)

lemma toy_full_check: "CheckAddrman toy_env toy_full = 0"
  by code_simp

section \<open>Properties of the bucket functions and of the quality predicate\<close>

text \<open>
  Claim C4. For every secret key, address, source and asmap the code's tried bucket, new bucket
  and bucket position are the nested hashes of the specification: the tried bucket is
  \<open>H(K \<parallel> addr_key) mod 8\<close> fed into \<open>H(K \<parallel> group(addr) \<parallel> b1) mod 256\<close>, the new bucket is
  \<open>H(K \<parallel> group(addr) \<parallel> group(source)) mod 64\<close> fed into \<open>H(K \<parallel> group(source) \<parallel> b1) mod 1024\<close>,
  and the position is \<open>H(K \<parallel> tag \<parallel> bucket \<parallel> addr_key) mod 64\<close> with tag \<open>N\<close> for the new table
  and \<open>K\<close> for the tried table.
\<close>

theorem bucket_functions_refine_spec:
  "GetTriedBucket env K asmap info = spec_tried_bucket env K asmap (service info)
   \<and> GetNewBucket env K src asmap info = spec_new_bucket env K asmap (service info) src
   \<and> GetBucketPosition env K is_new nBucket info = spec_bucket_pos env K is_new nBucket (service info)"
  by (simp add: GetTriedBucket_def GetNewBucket_def GetBucketPosition_def
      spec_tried_bucket_def spec_new_bucket_def spec_bucket_pos_def
      ADDRMAN_TRIED_BUCKETS_PER_GROUP_def ADDRMAN_TRIED_BUCKET_COUNT_def
      ADDRMAN_NEW_BUCKETS_PER_SOURCE_GROUP_def ADDRMAN_NEW_BUCKET_COUNT_def
      ADDRMAN_BUCKET_SIZE_def Let_def)

text \<open>
  Claim C8, as stated: an entry whose \<open>last_try\<close> is at least \<open>now - 60\<close> is never terrible,
  also when \<open>last_try = 0\<close>. The code exempts an entry only when \<open>last_try\<close> is not zero:
  an entry never tried, with no time stamp, is terrible at \<open>now = 30\<close> although
  \<open>0 \<ge> 30 - 60\<close>.
\<close>

theorem is_terrible_never_tried_counterexample:
  "nLastTry \<lparr>service = (1, 8333), nTime = 0, nServices = 0, source = 1, nLastTry = 0,
             nLastCountAttempt = 0, nLastSuccess = 0, nAttempts = 0, fInTried = False,
             nRandomPos = 0, m_bucket = 0, m_bucketpos = 0\<rparr> \<ge> 30 - 60
   \<and> IsTerrible \<lparr>service = (1, 8333), nTime = 0, nServices = 0, source = 1, nLastTry = 0,
             nLastCountAttempt = 0, nLastSuccess = 0, nAttempts = 0, fInTried = False,
             nRandomPos = 0, m_bucket = 0, m_bucketpos = 0\<rparr> 30"
  by (simp add: IsTerrible_def)

text \<open>
  Claim C8, amended: an entry that has been tried (\<open>last_try \<noteq> 0\<close>) and whose \<open>last_try\<close> is
  at least \<open>now - 60\<close> seconds is not terrible, whatever its other statistics.
\<close>

theorem is_terrible_recent_try:
  "nLastTry info \<noteq> 0 \<Longrightarrow> nLastTry info \<ge> nNow - 60 \<Longrightarrow> \<not> IsTerrible info nNow"
  by (simp add: IsTerrible_def)

theorem is_terrible_recent_try_witness:
  "nLastTry \<lparr>service = (1, 8333), nTime = 0, nServices = 0, source = 1, nLastTry = 100,
             nLastCountAttempt = 0, nLastSuccess = 0, nAttempts = 5, fInTried = False,
             nRandomPos = 0, m_bucket = 0, m_bucketpos = 0\<rparr> \<noteq> 0
   \<and> nLastTry \<lparr>service = (1, 8333), nTime = 0, nServices = 0, source = 1, nLastTry = 100,
             nLastCountAttempt = 0, nLastSuccess = 0, nAttempts = 5, fInTried = False,
             nRandomPos = 0, m_bucket = 0, m_bucketpos = 0\<rparr> \<ge> 130 - 60
   \<and> \<not> IsTerrible \<lparr>service = (1, 8333), nTime = 0, nServices = 0, source = 1, nLastTry = 100,
             nLastCountAttempt = 0, nLastSuccess = 0, nAttempts = 5, fInTried = False,
             nRandomPos = 0, m_bucket = 0, m_bucketpos = 0\<rparr> 130"
  using is_terrible_recent_try
    [of "\<lparr>service = (1, 8333), nTime = 0, nServices = 0, source = 1, nLastTry = 100,
             nLastCountAttempt = 0, nLastSuccess = 0, nAttempts = 5, fInTried = False,
             nRandomPos = 0, m_bucket = 0, m_bucketpos = 0\<rparr>" 130]
  by simp

section \<open>Properties of the single operations\<close>

text \<open>
  Claim C5, as stated: in \<^verbatim>\<open>AddSingle\<close> on an address that has a main entry, an announcement
  newer than the stored time updates the stored time only if the stored time is older than the
  announced time minus an update interval minus the penalty, the interval being 60 seconds for
  a peer that is currently online. In the code the interval is \<open>60 * 60\<close> seconds, and a stored
  time of 0 is always refreshed: a stored time of 10000 is 100 seconds older than the
  announced 10100 and stays, and a stored time of 0 becomes the announced 50.
\<close>

theorem add_refresh_counterexample:
  "stored_nTime (1, 0) (toy_one 10000) = Some 10000
   \<and> map_option (stored_nTime (1, 0) \<circ> snd)
        (AddSingle toy_env 10100 \<lparr>addr_service = (1, 0), addr_nTime = 10100, addr_nServices = 1\<rparr> 7 0
           (toy_one 10000)) = Some (Some 10000)
   \<and> (10000::int) < 10100 - 60 - 0
   \<and> stored_nTime (1, 0) (toy_one 0) = Some 0
   \<and> map_option (stored_nTime (1, 0) \<circ> snd)
        (AddSingle toy_env 10100 \<lparr>addr_service = (1, 0), addr_nTime = 50, addr_nServices = 1\<rparr> 7 0
           (toy_one 0)) = Some (Some 50)
   \<and> \<not> ((0::int) < 50 - 60 - 0)"
  by code_simp

text \<open>
  Claim C5, amended: when \<^verbatim>\<open>AddSingle\<close> returns for a routable address that has a main entry,
  the stored time of that entry is \<open>max(0, announced - penalty)\<close> if the announced time is not 0
  and the stored time is 0 or older than the announced time minus the update interval minus
  the penalty, and is unchanged otherwise; the update interval is 3600 seconds if the peer is
  currently online (\<open>now - announced < 24 h\<close>) and 24 hours otherwise, and the penalty is 0 for a
  self-announcement.
\<close>

theorem add_existing_refreshes_time:
  assumes d: "distinct (map fst (m_index s))"
    and rt: "IsRoutable env (fst (addr_service addr))"
    and f: "find_addr (m_index s) (addr_service addr) False = Some (it, e0)"
    and r: "AddSingle env now addr src nTimePenalty s = Some (r, s')"
  shows "map_option nTime (map_of (m_index s') it) =
           Some (if addr_nTime addr \<noteq> 0 \<and>
                    (nTime e0 = 0 \<or>
                     uint (nTime e0) < uint (addr_nTime addr)
                        - (if now - uint (addr_nTime addr) < 24 * 60 * 60 then 60 * 60 else 24 * 60 * 60)
                        - (if fst (addr_service addr) = src then 0 else nTimePenalty))
                 then word_of_int (max 0 (uint (addr_nTime addr)
                        - (if fst (addr_service addr) = src then 0 else nTimePenalty)))
                 else nTime e0)"
proof -
  define pen where "pen = (if fst (addr_service addr) = src then 0 else nTimePenalty)"
  define info where "info = (AddrInfo_init addr src)\<lparr>fInTried := False\<rparr>"
  define s2 where "s2 = AddSingle_refresh env now addr pen it e0 s"
  have mem: "(it, e0) \<in> set (m_index s)" and sv: "service e0 = addr_service addr"
    using find_addr_SomeD [OF f] by auto
  have m0: "map_of (m_index s) it = Some e0" using d mem by simp
  have "\<exists>e. map_of (m_index s2) it = Some e \<and> service e = service e0
           \<and> nTime e = (if time_update_due now addr pen e0
                         then word_of_int (max 0 (uint (addr_nTime addr) - pen)) else nTime e0)"
    unfolding s2_def by (rule AddSingle_refresh_entry(1) [OF m0])
  then obtain e2 where
    m2: "map_of (m_index s2) it = Some e2" and sv2': "service e2 = service e0"
    and t2: "nTime e2 = (if time_update_due now addr pen e0
                         then word_of_int (max 0 (uint (addr_nTime addr) - pen)) else nTime e0)"
    by blast
  have sv2: "service e2 = addr_service addr" using sv2' sv by simp
  have ids2: "map fst (m_index s2) = map fst (m_index s)"
    unfolding s2_def by (rule AddSingle_refresh_entry(2) [OF m0])
  have d2: "distinct (map fst (m_index s2))" using d ids2 by simp
  have "AddSingle env now addr src nTimePenalty s = AddSingle_alias env now addr info e2 s2"
    unfolding AddSingle_existing [OF rt f] s2_def [symmetric] pen_def [symmetric] info_def [symmetric]
    by (simp add: m2)
  with r have "AddSingle_alias env now addr info e2 s2 = Some (r, s')" by simp
  from AddSingle_alias_cases [OF this]
  have frame: "\<exists>e'. map_of (m_index s') it = Some e' \<and> core e' = core e2"
  proof (elim disjE)
    assume "s' = s2"
    with m2 show ?thesis by simp
  next
    assume "s' = rand_next s2"
    with m2 show ?thesis by (simp add: rand_next_def)
  next
    assume "AddSingle_place env now addr info True s2 = Some (r, s')"
    from AddSingle_place_frame [OF this d2 m2 sv2] show ?thesis .
  next
    assume p: "AddSingle_place env now addr info True (rand_next s2) = Some (r, s')"
    have "distinct (map fst (m_index (rand_next s2)))" using d2 by (simp add: rand_next_def)
    moreover have "map_of (m_index (rand_next s2)) it = Some e2" using m2 by (simp add: rand_next_def)
    ultimately show ?thesis
      using AddSingle_place_frame [OF p _ _ sv2] by blast
  qed
  then obtain e' where e': "map_of (m_index s') it = Some e'" "core e' = core e2" by blast
  from core_fields [OF e'(2)] have "nTime e' = nTime e2" by blast
  with e'(1) t2 show ?thesis
    by (simp add: time_update_due_def nUpdateInterval_def Let_def pen_def)
qed

theorem add_existing_refreshes_time_witness:
  "distinct (map fst (m_index (toy_one 10000)))
   \<and> IsRoutable toy_env (fst (1, 0))
   \<and> find_addr (m_index (toy_one 10000)) (1, 0) False = Some (0, toy_entry 10000)
   \<and> AddSingle toy_env 20000 \<lparr>addr_service = (1, 0), addr_nTime = 20000, addr_nServices = 1\<rparr> 7 0
        (toy_one 10000) = Some (False, toy_one 20000)
   \<and> map_option nTime (map_of (m_index (toy_one 20000)) 0) = Some 20000"
proof -
  let ?addr = "\<lparr>addr_service = (1, 0), addr_nTime = 20000, addr_nServices = 1\<rparr>"
  have h1: "distinct (map fst (m_index (toy_one 10000)))"
    by (simp add: toy_one_def)
  have h2: "IsRoutable toy_env (fst (addr_service ?addr))"
    by (simp add: toy_env_def)
  have h3: "find_addr (m_index (toy_one 10000)) (addr_service ?addr) False = Some (0, toy_entry 10000)"
    by (simp add: toy_one_def find_addr_def toy_entry_def is_alias_def)
  have h4: "AddSingle toy_env 20000 ?addr 7 0 (toy_one 10000) = Some (False, toy_one 20000)"
    by (simp add: AddSingle_def AddSingle_refresh_def AddSingle_alias_def time_update_due_def
        nUpdateInterval_def Modify_def UpdateStat_def set_node_def Rebucket_def GetNewBucket_def
        GetBucketPosition_def toy_env_def toy_hash_def toy_one_def toy_entry_def find_addr_def
        is_alias_def AddrInfo_init_def Let_def ADDRMAN_NEW_BUCKETS_PER_SOURCE_GROUP_def
        ADDRMAN_NEW_BUCKET_COUNT_def ADDRMAN_BUCKET_SIZE_def)
  have "map_option nTime (map_of (m_index (toy_one 20000)) 0) = Some 20000"
    using add_existing_refreshes_time [OF h1 h2 h3 h4] by (simp add: toy_entry_def)
  with h1 h2 h3 h4 show ?thesis
    by simp
qed

text \<open>
  Claim C6, as stated: when \<^verbatim>\<open>Good\<close> finds the tried slot of a new-table entry occupied and
  the collision set is full, the call falls through to \<^verbatim>\<open>MakeTried\<close> and the entry is promoted.
  In the code the test of the set's size only guards the insertion: with ten entries in the
  set, \<^verbatim>\<open>Good_\<close> on address \<open>(2816, 0)\<close>, whose tried slot node 12 occupies, returns false and
  the address is still in the new table.
\<close>

theorem good_full_collision_set_counterexample:
  "card (m_tried_collisions toy_full) = 10
   \<and> map_option fst (find_bucket (m_index toy_full)
        (True, GetTriedBucket toy_env (nKey toy_full) (m_asmap toy_full) (toy_peer 11 0 0),
         GetBucketPosition toy_env (nKey toy_full) False
           (GetTriedBucket toy_env (nKey toy_full) (m_asmap toy_full) (toy_peer 11 0 0))
           (toy_peer 11 0 0))) = Some 12
   \<and> map_option fst (Good_impl toy_env (2816, 0) True 6000 toy_full) = Some False
   \<and> map_option (map_option tried \<circ> FindAddressEntry_impl toy_env (2816, 0) \<circ> snd)
        (Good_impl toy_env (2816, 0) True 6000 toy_full) = Some (Some False)"
proof -
  from Good_impl_collision [OF toy_full_distinct toy_full_find _ toy_full_slot, of 6000]
  obtain s' e' where g: "Good_impl toy_env (2816, 0) True 6000 toy_full = Some (False, s')"
    and f: "find_addr (m_index s') (2816, 0) False = Some (11, e')" and nt: "\<not> fInTried e'"
    by (auto simp: toy_peer_def)
  have "map_option tried (FindAddressEntry_impl toy_env (2816, 0) s') = Some False"
    using f nt by (simp add: FindAddressEntry_impl_def Let_def)
  with g toy_full_card toy_full_slot show ?thesis
    by simp
qed

text \<open>
  Claim C6, amended: when \<^verbatim>\<open>Good\<close> is called with \<open>test_before_evict\<close> on a main entry of the
  new table whose tried slot is occupied, it returns false and the entry stays in the new table
  with its statistics updated; the entry's reference is added to the collision set if the set
  holds fewer than 10 entries, and the set is unchanged otherwise. No entry is promoted,
  created or erased.
\<close>

theorem good_collision_defers:
  assumes "distinct (map fst (m_index s))"
    and "find_addr (m_index s) addr False = Some (it, e0)"
    and "\<not> fInTried e0"
    and "find_bucket (m_index s)
           (True, GetTriedBucket env (nKey s) (m_asmap s) e0,
            GetBucketPosition env (nKey s) False (GetTriedBucket env (nKey s) (m_asmap s) e0) e0)
         = Some occupant"
  shows "\<exists>s' e'. Good_impl env addr True t s = Some (False, s')
          \<and> m_tried_collisions s' =
              (if card (m_tried_collisions s) < ADDRMAN_SET_TRIED_COLLISION_SIZE
               then insert it (m_tried_collisions s) else m_tried_collisions s)
          \<and> find_addr (m_index s') addr False = Some (it, e') \<and> \<not> fInTried e'
          \<and> nLastSuccess e' = t \<and> nLastTry e' = t \<and> nAttempts e' = 0
          \<and> map fst (m_index s') = map fst (m_index s)
          \<and> find_bucket (m_index s') (ByBucketExtractor (snd occupant)) = Some occupant"
  using assms by (rule Good_impl_collision)

theorem good_collision_defers_witness:
  "distinct (map fst (m_index toy_full))
   \<and> find_addr (m_index toy_full) (2816, 0) False = Some (11, toy_peer 11 0 0)
   \<and> \<not> fInTried (toy_peer 11 0 0)
   \<and> (\<exists>s' e'. Good_impl toy_env (2816, 0) True 6000 toy_full = Some (False, s')
         \<and> m_tried_collisions s' = m_tried_collisions toy_full
         \<and> find_addr (m_index s') (2816, 0) False = Some (11, e') \<and> \<not> fInTried e'
         \<and> nLastSuccess e' = 6000)"
proof -
  have nt: "\<not> fInTried (toy_peer 11 0 0)"
    by (simp add: toy_peer_def)
  from good_collision_defers [OF toy_full_distinct toy_full_find nt toy_full_slot, of 6000]
  obtain s' e' where "Good_impl toy_env (2816, 0) True 6000 toy_full = Some (False, s')"
    "m_tried_collisions s' =
       (if card (m_tried_collisions toy_full) < ADDRMAN_SET_TRIED_COLLISION_SIZE
        then insert 11 (m_tried_collisions toy_full) else m_tried_collisions toy_full)"
    "find_addr (m_index s') (2816, 0) False = Some (11, e')" "\<not> fInTried e'" "nLastSuccess e' = 6000"
    by blast
  then have "\<exists>s' e'. Good_impl toy_env (2816, 0) True 6000 toy_full = Some (False, s')
         \<and> m_tried_collisions s' = m_tried_collisions toy_full
         \<and> find_addr (m_index s') (2816, 0) False = Some (11, e') \<and> \<not> fInTried e'
         \<and> nLastSuccess e' = 6000"
    using toy_full_card by (simp add: ADDRMAN_SET_TRIED_COLLISION_SIZE_def)
  with toy_full_distinct toy_full_find nt show ?thesis
    by blast
qed

text \<open>
  Claim C7, as stated: \<^verbatim>\<open>Good\<close> on an address that is not in the manager leaves the entire
  state unchanged, the last-good time stamp included. The code writes \<^verbatim>\<open>nLastGood\<close> before it
  looks the address up: on the empty manager, whose \<^verbatim>\<open>nLastGood\<close> is 1, a call with the time
  5000 leaves 5000 there.
\<close>

theorem good_absent_counterexample:
  "CountAddr (m_index (AddrMan_init 1 [] 0 toy_rand)) (1, 0) = 0
   \<and> nLastGood (AddrMan_init 1 [] 0 toy_rand) = 1
   \<and> map_option (nLastGood \<circ> snd) (Good_impl toy_env (1, 0) True 5000 (AddrMan_init 1 [] 0 toy_rand))
       = Some 5000"
  by (simp add: Good_impl_def AddrMan_init_def find_addr_def CountAddr_def)

text \<open>
  Claim C7, amended: for an address that has no entry in the manager, \<^verbatim>\<open>Good_\<close> returns false
  and changes nothing but \<^verbatim>\<open>nLastGood\<close>, which it sets to the time of the call; \<^verbatim>\<open>Attempt_\<close>,
  \<^verbatim>\<open>Connected_\<close> and \<^verbatim>\<open>SetServices_\<close> change nothing.
\<close>

theorem lookup_miss_is_noop:
  assumes "CountAddr (m_index s) addr = 0"
  shows "Good_impl env addr test_before_evict t s = Some (False, s\<lparr>nLastGood := t\<rparr>)
       \<and> Attempt_impl env addr fCountFailure t s = s
       \<and> Connected_impl env addr t s = s
       \<and> SetServices_impl env addr sv s = s"
  using CountAddr_0_find [OF assms, of False]
  by (simp add: Good_impl_def Attempt_impl_def Connected_impl_def SetServices_impl_def)

theorem lookup_miss_is_noop_witness:
  "CountAddr (m_index toy_full) (1, 0) = 0
   \<and> Good_impl toy_env (1, 0) True 7000 toy_full = Some (False, toy_full\<lparr>nLastGood := 7000\<rparr>)
   \<and> Attempt_impl toy_env (1, 0) True 7000 toy_full = toy_full
   \<and> Connected_impl toy_env (1, 0) 7000 toy_full = toy_full
   \<and> SetServices_impl toy_env (1, 0) 9 toy_full = toy_full"
proof -
  have h: "CountAddr (m_index toy_full) (1, 0) = 0"
    by (simp add: toy_full_def CountAddr_def toy_peer_def)
  from lookup_miss_is_noop [OF h] h show ?thesis
    by simp
qed

text \<open>
  Claim C9, as stated: the list \<^verbatim>\<open>GetAddr\<close> returns is never longer than
  \<open>min(max_addresses, max_pct % of T)\<close>, also for \<open>max_addresses = 0\<close> and \<open>max_pct = 0\<close>. In the
  code a zero argument sets no limit: with both zero, a manager of one good entry returns it,
  and the minimum is 0.
\<close>

theorem getaddr_zero_limits_counterexample:
  "length (vRandom (toy_one 10000)) = 1
   \<and> map_option (length \<circ> fst) (GetAddr_impl toy_env 10100 0 0 None (toy_one 10000)) = Some 1
   \<and> min 0 (0 * length (vRandom (toy_one 10000)) div 100) = (0::nat)"
  by code_simp

text \<open>
  Claim C9, amended: when \<^verbatim>\<open>GetAddr\<close> returns on a manager of \<open>T\<close> main entries, the length of
  the list is at most \<open>n\<close>, where \<open>n\<close> starts as \<open>T\<close>, becomes \<open>max_pct * T / 100\<close> (in 64-bit
  unsigned arithmetic) if \<open>max_pct\<close> is not 0, and then the smaller of itself and
  \<open>max_addresses\<close> if \<open>max_addresses\<close> is not 0.
\<close>

theorem getaddr_length_bound:
  assumes "GetAddr_impl env now max_addresses max_pct network s = Some (addresses, s')"
  shows "length addresses \<le>
           (if max_addresses \<noteq> 0
            then min (if max_pct \<noteq> 0 then max_pct * length (vRandom s) mod 2 ^ 64 div 100
                      else length (vRandom s)) max_addresses
            else (if max_pct \<noteq> 0 then max_pct * length (vRandom s) mod 2 ^ 64 div 100
                  else length (vRandom s)))"
proof -
  let ?n = "(if max_addresses \<noteq> 0
            then min (if max_pct \<noteq> 0 then max_pct * length (vRandom s) mod 2 ^ 64 div 100
                      else length (vRandom s)) max_addresses
            else (if max_pct \<noteq> 0 then max_pct * length (vRandom s) mod 2 ^ 64 div 100
                  else length (vRandom s)))"
  have "GetAddr_loop env now ?n network 0 [] s = Some (addresses, s')"
    using assms unfolding GetAddr_impl_def Let_def by simp
  from GetAddr_loop_bound [OF this] show ?thesis
    by simp
qed

theorem getaddr_length_bound_witness:
  "GetAddr_impl toy_env 10100 5 100 None (toy_one 10000)
     = Some ([\<lparr>addr_service = (1, 0), addr_nTime = 10000, addr_nServices = 1\<rparr>], rand_next (toy_one 10000))
   \<and> length [\<lparr>addr_service = (1, 0), addr_nTime = 10000, addr_nServices = 1\<rparr>] \<le> min (100 * 1 div 100) (5::nat)"
proof -
  have h: "GetAddr_impl toy_env 10100 5 100 None (toy_one 10000)
     = Some ([\<lparr>addr_service = (1, 0), addr_nTime = 10000, addr_nServices = 1\<rparr>], rand_next (toy_one 10000))"
    by (simp add: GetAddr_impl_def GetAddr_loop.simps randrange_def rand_next_def SwapRandom_def
        toy_one_def toy_entry_def IsTerrible_def to_CAddress_def toy_env_def toy_rand_def Let_def
        ADDRMAN_HORIZON_DAYS_def ADDRMAN_RETRIES_def ADDRMAN_MIN_FAIL_DAYS_def ADDRMAN_MAX_FAILURES_def)
  from getaddr_length_bound [OF h] h show ?thesis
    by (simp add: toy_one_def)
qed

text \<open>
  Claim C10. When \<^verbatim>\<open>EraseInner\<close> is asked to remove the main entry of an address that has an
  alias (which is what the eviction in \<^verbatim>\<open>AddSingle\<close>, \<^verbatim>\<open>MakeTried\<close> and \<^verbatim>\<open>Unserialize\<close> calls), the
  main entry stays in the index with its statistics, its table and its place in \<^verbatim>\<open>vRandom\<close>, and
  takes the source of the first alias; that alias is the node erased, and the number of entries
  of the address goes down by exactly one.
\<close>

theorem erase_main_entry_with_alias:
  assumes d: "distinct (map fst (m_index s))"
    and m: "map_of (m_index s) it = Some e"
    and canon: "nRandomPos e \<noteq> -1"
    and al: "find_addr (m_index s) (service e) True = Some (it_alias, e_alias)"
  shows "\<exists>s' e'. EraseInner env it s = Some s'
           \<and> map_of (m_index s') it = Some e'
           \<and> service e' = service e \<and> source e' = source e_alias
           \<and> nTime e' = nTime e \<and> nServices e' = nServices e \<and> nLastTry e' = nLastTry e
           \<and> nLastCountAttempt e' = nLastCountAttempt e \<and> nLastSuccess e' = nLastSuccess e
           \<and> nAttempts e' = nAttempts e \<and> fInTried e' = fInTried e \<and> nRandomPos e' = nRandomPos e
           \<and> map_of (m_index s') it_alias = None
           \<and> CountAddr (m_index s') (service e) + 1 = CountAddr (m_index s) (service e)"
proof -
  let ?s1 = "if it_alias \<in> m_tried_collisions s
             then s\<lparr>m_tried_collisions := insert it (m_tried_collisions s)\<rparr> else s"
  let ?f = "\<lambda>info::AddrInfo. info\<lparr>source := source e_alias\<rparr>"
  let ?e' = "Rebucket env (nKey s) (m_asmap s) (?f e)"
  let ?s2 = "Modify env it ?f ?s1"
  have al_mem: "(it_alias, e_alias) \<in> set (m_index s)" "service e_alias = service e" "is_alias e_alias"
    using find_addr_SomeD [OF al] by auto
  have mem: "(it, e) \<in> set (m_index s)"
    using m by (rule map_of_SomeD)
  have neq: "it_alias \<noteq> it"
    using al_mem(1,3) mem canon distinct_ids_unique [OF d, of it e e_alias]
    by (auto simp: is_alias_def)
  have m1: "map_of (m_index ?s1) it = Some e" using m by simp
  have idx2: "m_index ?s2 = set_node it ?e' (m_index s)"
    using Modify_Some(1) [OF m1, of env ?f] by simp
  have ma2: "map_of (m_index ?s2) it_alias = Some e_alias"
    using neq d al_mem(1) by (simp add: idx2 map_of_set_node)
  have er: "EraseInner env it s = Some (erase_node it_alias ?s2)"
    using m canon al by (simp add: EraseInner_def Let_def)
  have idx': "m_index (erase_node it_alias ?s2) = del_node it_alias (set_node it ?e' (m_index s))"
    using ma2 by (simp add: erase_node_def Let_def idx2)
  have c1: "CountAddr (set_node it ?e' (m_index s)) (service e) = CountAddr (m_index s) (service e)"
    by (rule CountAddr_set_node [OF d m]) simp
  have ma2': "map_of (set_node it ?e' (m_index s)) it_alias = Some e_alias"
    using ma2 by (simp add: idx2)
  have c2: "CountAddr (del_node it_alias (set_node it ?e' (m_index s))) (service e) + 1
              = CountAddr (set_node it ?e' (m_index s)) (service e)"
    using CountAddr_del_node [OF _ ma2', of "service e"] d al_mem(2) by simp
  have it_in: "it \<in> set (map fst (m_index s))"
    using mem by force
  show ?thesis
    apply (rule exI [of _ "erase_node it_alias ?s2"])
    apply (rule exI [of _ ?e'])
    using er neq it_in c1 c2
    by (simp add: idx' map_of_del_node map_of_set_node)
qed

theorem erase_main_entry_with_alias_witness:
  "distinct (map fst (m_index toy_two))
   \<and> map_of (m_index toy_two) 0 = Some (toy_entry 1000)
   \<and> nRandomPos (toy_entry 1000) \<noteq> -1
   \<and> find_addr (m_index toy_two) (service (toy_entry 1000)) True
        = Some (1, (toy_entry 2000)\<lparr>source := 8, nRandomPos := -1, m_bucket := 8\<rparr>)
   \<and> (\<exists>s' e'. EraseInner toy_env 0 toy_two = Some s'
         \<and> map_of (m_index s') 0 = Some e' \<and> source e' = 8 \<and> nTime e' = 1000
         \<and> map_of (m_index s') 1 = None
         \<and> CountAddr (m_index s') (1, 0) + 1 = CountAddr (m_index toy_two) (1, 0))"
proof -
  have h1: "distinct (map fst (m_index toy_two))"
    by (simp add: toy_two_def)
  have h2: "map_of (m_index toy_two) 0 = Some (toy_entry 1000)"
    by (simp add: toy_two_def)
  have h3: "nRandomPos (toy_entry 1000) \<noteq> -1"
    by (simp add: toy_entry_def)
  have h4: "find_addr (m_index toy_two) (service (toy_entry 1000)) True
        = Some (1, (toy_entry 2000)\<lparr>source := 8, nRandomPos := -1, m_bucket := 8\<rparr>)"
    by (simp add: toy_two_def find_addr_def toy_entry_def is_alias_def)
  from erase_main_entry_with_alias [OF h1 h2 h3 h4, of toy_env]
  obtain s' e' where "EraseInner toy_env 0 toy_two = Some s'" "map_of (m_index s') 0 = Some e'"
    "source e' = source ((toy_entry 2000)\<lparr>source := 8, nRandomPos := -1, m_bucket := 8\<rparr>)"
    "nTime e' = nTime (toy_entry 1000)" "map_of (m_index s') 1 = None"
    "CountAddr (m_index s') (service (toy_entry 1000)) + 1
       = CountAddr (m_index toy_two) (service (toy_entry 1000))"
    by blast
  then have "\<exists>s' e'. EraseInner toy_env 0 toy_two = Some s'
         \<and> map_of (m_index s') 0 = Some e' \<and> source e' = 8 \<and> nTime e' = 1000
         \<and> map_of (m_index s') 1 = None
         \<and> CountAddr (m_index s') (1, 0) + 1 = CountAddr (m_index toy_two) (1, 0)"
    by (simp add: toy_entry_def)
  with h1 h2 h3 h4 show ?thesis
    by blast
qed


subsection \<open>C3: references of an address\<close>

text \<open>
  C3 states that after every public operation an address has at most
  \<^verbatim>\<open>ADDRMAN_NEW_BUCKETS_PER_ADDRESS\<close> = 8 entries, and that its entries are either all in the new
  table or a single one in the tried table. \<^verbatim>\<open>AddSingle\<close> keeps the bound, but
  \<^verbatim>\<open>Unserialize\<close> of this variant does not: it reads the number of sources of an entry from the
  stream and inserts one entry for each, and its \<^verbatim>\<open>CheckAddrman\<close> does not count the entries of
  an address. The stream \<open>nine_sources\<close> is read without a failure, the manager read passes
  \<^verbatim>\<open>CheckAddrman\<close> with the code 0, and it holds nine entries of the address \<open>(1, 0)\<close>.
\<close>

theorem unserialize_nine_sources:
  "map_sum id (\<lambda>s. (CountAddr (m_index s) (1, 0), CheckAddrman toy_env s))
     (Unserialize toy_env nine_sources (AddrMan_init 0 [] 0 toy_rand)) = Inr (9, 0)
   \<and> ADDRMAN_NEW_BUCKETS_PER_ADDRESS = 8"
  by code_simp
end
